theory Spec2Isabelle
  imports Complex_Main "HOL-Library.Monad_Syntax" "HOL-Library.AList"
    "HOL-Library.Char_ord" "HOL-Library.List_Lexorder"
begin

section \<open>Python values used by the CO2MPAS sources\<close>

text \<open>
  A Python \<open>dict\<close> with string keys is an association list with distinct keys, in
  insertion order. \<open>d[k]\<close> is \<open>map_of d k\<close>, where \<open>None\<close> stands for the
  \<open>KeyError\<close> the subscript raises; \<open>k in d\<close> is \<open>dict_contains\<close>;
  \<open>d.update(e)\<close> is \<open>dict_update d e\<close>: a key that is present keeps its place and
  takes the new value, a new key is appended. Python floats are modelled by the reals:
  rounding is outside the model.
\<close>

type_synonym 'v dict = "(string \<times> 'v) list"

definition dict_keys :: "'v dict \<Rightarrow> string list" where
  "dict_keys d = map fst d"

definition dict_contains :: "string \<Rightarrow> 'v dict \<Rightarrow> bool" where
  "dict_contains k d = (map_of d k \<noteq> None)"

definition dict_update :: "'v dict \<Rightarrow> 'v dict \<Rightarrow> 'v dict" where
  "dict_update d e = fold (\<lambda>(k, v). AList.update k v) e d"

text \<open>\<open>str.upper()\<close> on ASCII strings: the letters a..z move to A..Z.\<close>

definition upper_char :: "char \<Rightarrow> char" where
  "upper_char c =
     (let n = (of_char c :: nat) in if 97 \<le> n \<and> n \<le> 122 then char_of (n - 32) else c)"

definition str_upper :: "string \<Rightarrow> string" where
  "str_upper s = map upper_char s"

section \<open>Cycle phases integration times\<close>

text \<open>
  \<open>select_phases_integration_times\<close> of \<open>co2_emission.py\<close> holds its own table
  \<open>_integration_times\<close> and subscripts it with the upper-cased cycle type; the defaults
  registry of \<open>defaults.py\<close> holds \<open>INTEGRATION_TIMES\<close>.
\<close>

definition integration_times :: "real list dict" where
  "integration_times =
     [(''WLTP'', [0.0, 590.0, 1023.0, 1478.0, 1801.0]),
      (''NEDC'', [0.0, 780.0, 1181.0])]"

definition select_phases_integration_times :: "string \<Rightarrow> real list option" where
  "select_phases_integration_times cycle_type =
     map_of integration_times (str_upper cycle_type)"

definition INTEGRATION_TIMES :: "real list dict" where
  "INTEGRATION_TIMES =
     [(''WLTP'', [0.0, 590.0, 1023.0, 1478.0, 1800.0]),
      (''NEDC'', [0.0, 780.0, 1180.0])]"

section \<open>The CO2 emission model (\<open>co2_emission.py\<close>)\<close>

text \<open>
  numpy arrays are lists and the array operations of the source are written element by
  element. A boolean mask \<open>xs[b]\<close> selects the elements of \<open>xs\<close> where \<open>b\<close> holds;
  \<open>xs[b] = ys\<close> writes the elements of \<open>ys\<close>, in order, to those places. The arrays
  of one call have one length, as numpy requires. \<open>np.power x y\<close> is \<open>x powr y\<close> for
  a positive base and 1 for the exponent 0; \<open>np.nan_to_num\<close> is the identity on the
  reals (the model of this section has no infinite value and no NaN).
\<close>

definition mask_select :: "'a list \<Rightarrow> bool list \<Rightarrow> 'a list" where
  "mask_select xs b = map fst (filter snd (zip xs b))"

fun mask_assign :: "'a list \<Rightarrow> bool list \<Rightarrow> 'a list \<Rightarrow> 'a list" where
  "mask_assign [] b ys = []"
| "mask_assign (x # xs) [] ys = x # xs"
| "mask_assign (x # xs) (True # b) [] = x # xs"
| "mask_assign (x # xs) (True # b) (y # ys) = y # mask_assign xs b ys"
| "mask_assign (x # xs) (False # b) ys = x # mask_assign xs b ys"

definition np_power :: "real \<Rightarrow> real \<Rightarrow> real" where
  "np_power x y = (if y = 0 then 1 else x powr y)"

definition calculate_normalized_engine_coolant_temperatures ::
  "real list \<Rightarrow> real \<Rightarrow> real list" where
  "calculate_normalized_engine_coolant_temperatures temps temperature_target =
     (let T = map (\<lambda>\<theta>. (\<theta> + 273.0) / (temperature_target + 273.0)) temps
      in map (\<lambda>x. if x > 1 then 1.0 else x) T)"

text \<open>
  \<open>_calculate_fuel_mean_effective_pressure\<close> for one sample. Each subscript
  \<open>p['a']\<close> may raise \<open>KeyError\<close> (\<open>None\<close>); the lookups are made in the source's
  order, and \<open>p['b2']\<close> is looked up in the test only when \<open>p['a2'] == 0\<close> holds
  (\<open>and\<close> short-circuits).
\<close>

definition calculate_fuel_mean_effective_pressure ::
  "real dict \<Rightarrow> real \<Rightarrow> real \<Rightarrow> real \<Rightarrow> (real \<times> real) option" where
  "calculate_fuel_mean_effective_pressure p n_speeds n_powers n_temperatures =
     do {
       a \<leftarrow> map_of p ''a'';
       b \<leftarrow> map_of p ''b'';
       c \<leftarrow> map_of p ''c'';
       let B = a + (b + c * n_speeds) * n_speeds;
       t \<leftarrow> map_of p ''t'';
       l \<leftarrow> map_of p ''l'';
       l2 \<leftarrow> map_of p ''l2'';
       let C = np_power n_temperatures (- t) * (l + l2 * n_speeds ^ 2);
       let C = C - n_powers;
       a2 \<leftarrow> map_of p ''a2'';
       linear \<leftarrow> (if a2 = 0 then map_option (\<lambda>b2. b2 = 0) (map_of p ''b2'') else Some False);
       if linear then Some (- C / B, B)
       else do {
         a2 \<leftarrow> map_of p ''a2'';
         b2 \<leftarrow> map_of p ''b2'';
         let A_2 = 2.0 * (a2 + b2 * n_speeds);
         let v = sqrt (abs (B ^ 2 - 2.0 * A_2 * C));
         Some ((- B + v) / A_2, v)
       }
     }"

definition zero_params :: "real dict" where
  "zero_params =
     [(''a2'', 0.0), (''b2'', 0.0),
      (''a'', 0.0), (''b'', 0.0), (''c'', 0.0),
      (''l'', 0.0), (''l2'', 0.0),
      (''t'', 0.0), (''trg'', 0.0)]"

definition calculate_p0 :: "real dict \<Rightarrow> real \<Rightarrow> real \<Rightarrow> real \<Rightarrow> real \<Rightarrow> real option" where
  "calculate_p0 params engine_capacity engine_stroke idle_engine_speed_median
       engine_fuel_lower_heating_value =
     (let p = dict_update zero_params params;
          engine_cm_idle = idle_engine_speed_median * engine_stroke / 30000.0;
          lhv = engine_fuel_lower_heating_value
      in do {
        (engine_wfb_idle, engine_wfa_idle) \<leftarrow>
          calculate_fuel_mean_effective_pressure p engine_cm_idle 0 1;
        let engine_wfa_idle = (3600000.0 / lhv) / engine_wfa_idle;
        let engine_wfb_idle =
          engine_wfb_idle * (3.0 * engine_capacity / lhv * idle_engine_speed_median);
        Some (- engine_wfb_idle / engine_wfa_idle)
      })"

subsection \<open>Brake mean effective pressure\<close>

text \<open>
  \<open>calculate_brake_mean_effective_pressures\<close> returns \<open>np.nan_to_num\<close> of a
  quotient that may be infinite or NaN, so its samples are float64 values: a finite one
  (a real; rounding, overflow and the sign of zero are outside the model, \<open>Fin 0\<close> is
  +0.0), the two infinities and NaN. \<open>engine_capacity\<close> is a Python \<open>float\<close>, and Python's \<open>/\<close> raises
  \<open>ZeroDivisionError\<close> (\<open>None\<close>) for a zero divisor; the product and the quotient
  with the arrays are numpy's, which follow IEEE 754 and do not raise.
  \<open>np.nan_to_num\<close> replaces NaN by 0.0 and an infinity by the largest finite float64
  of its sign.
\<close>

datatype npfloat = Fin real | PInf | NInf | NaN

definition DBL_MAX :: real where
  "DBL_MAX = (2 - 1 / 2 ^ 52) * 2 ^ 1023"

fun np_mul :: "npfloat \<Rightarrow> npfloat \<Rightarrow> npfloat" where
  "np_mul NaN y = NaN"
| "np_mul x NaN = NaN"
| "np_mul (Fin x) (Fin y) = Fin (x * y)"
| "np_mul (Fin x) PInf = (if x = 0 then NaN else if x > 0 then PInf else NInf)"
| "np_mul (Fin x) NInf = (if x = 0 then NaN else if x > 0 then NInf else PInf)"
| "np_mul PInf (Fin y) = (if y = 0 then NaN else if y > 0 then PInf else NInf)"
| "np_mul NInf (Fin y) = (if y = 0 then NaN else if y > 0 then NInf else PInf)"
| "np_mul PInf PInf = PInf"
| "np_mul PInf NInf = NInf"
| "np_mul NInf PInf = NInf"
| "np_mul NInf NInf = PInf"

fun np_div :: "npfloat \<Rightarrow> npfloat \<Rightarrow> npfloat" where
  "np_div NaN y = NaN"
| "np_div x NaN = NaN"
| "np_div (Fin x) (Fin y) =
     (if y = 0 then (if x = 0 then NaN else if x > 0 then PInf else NInf) else Fin (x / y))"
| "np_div (Fin x) PInf = Fin 0"
| "np_div (Fin x) NInf = Fin 0"
| "np_div PInf (Fin y) = (if y \<ge> 0 then PInf else NInf)"
| "np_div NInf (Fin y) = (if y \<ge> 0 then NInf else PInf)"
| "np_div PInf PInf = NaN"
| "np_div PInf NInf = NaN"
| "np_div NInf PInf = NaN"
| "np_div NInf NInf = NaN"

definition py_div :: "npfloat \<Rightarrow> npfloat \<Rightarrow> npfloat option" where
  "py_div x y = (if y = Fin 0 then None else Some (np_div x y))"

fun nan_to_num :: "npfloat \<Rightarrow> npfloat" where
  "nan_to_num (Fin x) = Fin x"
| "nan_to_num NaN = Fin 0.0"
| "nan_to_num PInf = Fin DBL_MAX"
| "nan_to_num NInf = Fin (- DBL_MAX)"

definition calculate_brake_mean_effective_pressures ::
  "npfloat list \<Rightarrow> npfloat list \<Rightarrow> npfloat \<Rightarrow> npfloat list option" where
  "calculate_brake_mean_effective_pressures engine_speeds_out engine_powers_out engine_capacity =
     do {
       q \<leftarrow> py_div (Fin 1200000.0) engine_capacity;
       let p = map (\<lambda>(w, s). np_div (np_mul q w) s) (zip engine_powers_out engine_speeds_out);
       Some (map nan_to_num p)
     }"

text \<open>
  The arguments that \<open>define_co2_emissions_model\<close> binds with \<open>partial\<close>: the
  emissions model of a cycle is \<open>calculate_co2_emissions\<close> applied to them.
\<close>

record co2_model_inputs =
  engine_speeds_out :: "real list"
  engine_powers_out :: "real list"
  mean_piston_speeds :: "real list"
  brake_mean_effective_pressures :: "real list"
  engine_coolant_temperatures :: "real list"
  on_engine :: "bool list"
  engine_fuel_lower_heating_value :: real
  idle_engine_speed :: "real \<times> real"
  engine_stroke :: real
  engine_capacity :: real
  engine_idle_fuel_consumption :: real
  fuel_carbon_content :: real

text \<open>
  The first statements of \<open>calculate_co2_emissions\<close> (the comment \<open># default params\<close>
  to \<open>p.update(params)\<close>): the dictionary \<open>p\<close> the rest of the function reads. An
  absent \<open>default_params\<close> (\<open>None\<close>) and an empty one are both false in
  \<open>if default_params:\<close>.
\<close>

definition co2_effective_params :: "real dict \<Rightarrow> real dict option \<Rightarrow> real dict" where
  "co2_effective_params params default_params =
     (let p = zero_params;
          p = (case default_params of
                 None \<Rightarrow> p
               | Some d \<Rightarrow> if d \<noteq> [] then dict_update p d else p)
      in dict_update p params)"

text \<open>
  The rest of \<open>calculate_co2_emissions\<close>, from \<open>if sub_values is None\<close> on, reading
  the dictionary \<open>p\<close>. \<open>MIN_ENGINE_SPEED\<close> comes from the constants module, which
  is not among the sources: it is a parameter. \<open>calculate_p0\<close> is called with the
  selected engine speeds, so the power threshold is computed sample by sample.
\<close>

definition calculate_co2_emissions_body ::
  "real \<Rightarrow> co2_model_inputs \<Rightarrow> real dict \<Rightarrow> bool list option \<Rightarrow> real list option" where
  "calculate_co2_emissions_body MIN_ENGINE_SPEED inp p sub_values =
     (let sub_values = (case sub_values of
                          None \<Rightarrow> replicate (length (mean_piston_speeds inp)) True
                        | Some b \<Rightarrow> b);
          n_speeds = mask_select (mean_piston_speeds inp) sub_values;
          n_powers = mask_select (brake_mean_effective_pressures inp) sub_values;
          lhv = engine_fuel_lower_heating_value inp;
          e_speeds = mask_select (engine_speeds_out inp) sub_values;
          e_powers = mask_select (engine_powers_out inp) sub_values;
          e_temp = mask_select (engine_coolant_temperatures inp) sub_values;
          e_off = map Not (mask_select (on_engine inp) sub_values)
      in do {
        trg \<leftarrow> map_of p ''trg'';
        let n_temp = calculate_normalized_engine_coolant_temperatures e_temp trg;
        fc \<leftarrow> those (map (\<lambda>(s, w, T).
                 map_option fst (calculate_fuel_mean_effective_pressure p s w T))
               (zip n_speeds (zip n_powers n_temp)));
        let fc = map (\<lambda>(f, s). f * (s * (engine_capacity inp / (lhv * 1200)))) (zip fc e_speeds);
        ec_p0 \<leftarrow> those (map (\<lambda>s.
                 calculate_p0 p (engine_capacity inp) (engine_stroke inp) s lhv) e_speeds);
        let b = map (\<lambda>s. s < fst (idle_engine_speed inp) + MIN_ENGINE_SPEED) e_speeds;
        t \<leftarrow> map_of p ''t'';
        let idle_fc_temp_correction = map (\<lambda>T. np_power T (- t)) (mask_select n_temp b);
        let fc = mask_assign fc b
                   (map (\<lambda>x. engine_idle_fuel_consumption inp * x) idle_fc_temp_correction);
        let fc = map (\<lambda>(w, p0, off, f). if w \<le> p0 \<or> off \<or> f < 0 then 0 else f)
                   (zip e_powers (zip ec_p0 (zip e_off fc)));
        let co2 = map (\<lambda>f. f * fuel_carbon_content inp) fc;
        Some co2
      })"

definition calculate_co2_emissions ::
  "real \<Rightarrow> co2_model_inputs \<Rightarrow> real dict \<Rightarrow> real dict option \<Rightarrow> bool list option
     \<Rightarrow> real list option" where
  "calculate_co2_emissions MIN_ENGINE_SPEED inp params default_params sub_values =
     calculate_co2_emissions_body MIN_ENGINE_SPEED inp
       (co2_effective_params params default_params) sub_values"

text \<open>
  The same first statements with the dictionaries as objects of a store, an object's
  address being its index: \<open>p = {...}\<close> and \<open>default_params.copy()\<close> allocate,
  \<open>p.update(q)\<close> writes the object at \<open>p\<close> and reads the one at \<open>q\<close>. The caller
  passes the addresses of \<open>params\<close> and \<open>default_params\<close> (which may be one object).
\<close>

type_synonym store = "real dict list"

definition store_alloc :: "real dict \<Rightarrow> store \<Rightarrow> nat \<times> store" where
  "store_alloc d h = (length h, h @ [d])"

definition store_update :: "nat \<Rightarrow> nat \<Rightarrow> store \<Rightarrow> store" where
  "store_update p q h = h[p := dict_update (h ! p) (h ! q)]"

definition co2_params_prologue :: "nat \<Rightarrow> nat option \<Rightarrow> store \<Rightarrow> nat \<times> store" where
  "co2_params_prologue params default_params h =
     (let (p, h) = store_alloc zero_params h;
          h = (case default_params of
                 None \<Rightarrow> h
               | Some d \<Rightarrow>
                   if h ! d \<noteq> []
                   then (let (c, h) = store_alloc (h ! d) h in store_update p c h)
                   else h)
      in (p, store_update p params h))"

text \<open>The nine coefficient names of the emission model.\<close>

definition coefficient_keys :: "string list" where
  "coefficient_keys = [''a'', ''b'', ''c'', ''a2'', ''b2'', ''l'', ''l2'', ''t'', ''trg'']"

text \<open>
  The value the specification gives a coefficient: the one of \<open>params\<close> if the key is
  there, else the one of a non-empty \<open>default_params\<close> that has the key, else 0.0.
\<close>

definition effective_value_spec :: "real dict \<Rightarrow> real dict option \<Rightarrow> string \<Rightarrow> real" where
  "effective_value_spec params default_params k =
     (case map_of params k of
        Some v \<Rightarrow> v
      | None \<Rightarrow>
          (case default_params of
             None \<Rightarrow> 0.0
           | Some d \<Rightarrow>
               if d \<noteq> [] \<and> dict_contains k d then the (map_of d k) else 0.0))"

subsection \<open>Initial guess and bounds\<close>

record guess_tables =
  tab_x0 :: "real dict"
  tab_bounds :: "(real \<times> real) dict"

definition engine_type_params :: "guess_tables dict" where
  "engine_type_params =
     [(''gasoline turbo'',
        \<lparr>tab_x0 = [(''a'', 0.468678), (''b'', 0.011859),
                   (''c'', -0.00069), (''a2'', -0.00266),
                   (''l'', -2.49882), (''l2'', -0.0025)],
         tab_bounds = [(''a'', (0.398589, 0.538767)), (''b'', (0.006558, 0.01716)),
                       (''c'', (-0.00099, -0.00038)), (''a2'', (-0.00354, -0.00179)),
                       (''l'', (-3.27698, -1.72066)), (''l2'', (-0.00796, 0.0))]\<rparr>),
      (''gasoline natural aspiration'',
        \<lparr>tab_x0 = [(''a'', 0.4719), (''b'', 0.01193),
                   (''c'', -0.00065), (''a2'', -0.00385),
                   (''l'', -2.14063), (''l2'', -0.00286)],
         tab_bounds = [(''a'', (0.40065, 0.54315)), (''b'', (-0.00247, 0.026333)),
                       (''c'', (-0.00138, 0.0000888)), (''a2'', (-0.00663, -0.00107)),
                       (''l'', (-3.17876, -1.1025)), (''l2'', (-0.00577, 0.0))]\<rparr>),
      (''diesel'',
        \<lparr>tab_x0 = [(''a'', 0.391197), (''b'', 0.028604),
                   (''c'', -0.00196), (''a2'', -0.0012),
                   (''l'', -1.55291), (''l2'', -0.0076)],
         tab_bounds = [(''a'', (0.346548, 0.435846)), (''b'', (0.002519, 0.054688)),
                       (''c'', (-0.00386, -0.000057)), (''a2'', (-0.00233, -0.000064)),
                       (''l'', (-2.2856, -0.82022)), (''l2'', (-0.01852, 0.0))]\<rparr>)]"

text \<open>
  \<open>select_initial_co2_emission_model_params_guess\<close>: \<open>params[engine_type]\<close> raises
  \<open>KeyError\<close> (\<open>None\<close>) for any other engine type; the loop updates \<open>p['x0']\<close> with
  the engine's \<open>'x0'\<close> and \<open>p['bounds']\<close> with its \<open>'bounds'\<close>.
\<close>

definition select_initial_co2_emission_model_params_guess ::
  "string \<Rightarrow> real \<Rightarrow> real \<times> real \<Rightarrow> (real dict \<times> (real \<times> real) dict) option" where
  "select_initial_co2_emission_model_params_guess engine_type
       engine_normalization_temperature engine_normalization_temperature_window =
     (let p = \<lparr>tab_x0 = [(''t'', 4.5), (''trg'', engine_normalization_temperature)],
               tab_bounds = [(''t'', (0.0, 8.0)),
                             (''trg'', engine_normalization_temperature_window)]\<rparr>
      in case map_of engine_type_params engine_type of
           None \<Rightarrow> None
         | Some v \<Rightarrow>
             Some (dict_update (tab_x0 p) (tab_x0 v),
                   dict_update (tab_bounds p) (tab_bounds v)))"

subsection \<open>Restricting the bounds\<close>

text \<open>
  The table \<open>mul\<close> local to \<open>restrict_bounds\<close>, and the registry's
  \<open>CO2_PARAMS_LIMIT_MULTIPLIERS\<close> of \<open>defaults.py\<close>.
\<close>

definition mul :: "(real \<times> real) dict" where
  "mul =
     [(''t'', (0.5, 1.5)), (''trg'', (0.9, 1.1)),
      (''a'', (0.8, 1.2)), (''b'', (0.8, 1.2)), (''c'', (1.2, 0.8)),
      (''a2'', (1.2, 0.8)),
      (''l'', (1.2, 0.8)), (''l2'', (1.2, 0.0))]"

definition CO2_PARAMS_LIMIT_MULTIPLIERS :: "(real \<times> real) dict" where
  "CO2_PARAMS_LIMIT_MULTIPLIERS =
     [(''t1'', (0.5, 1.5)), (''t2'', (0.5, 1.5)),
      (''trg'', (0.9, 1.1)),
      (''a'', (0.8, 1.2)), (''b'', (0.8, 1.2)),
      (''c'', (1.2, 0.8)), (''a2'', (1.2, 0.8)),
      (''l'', (1.2, 0.8)), (''l2'', (1.2, 0.0))]"

text \<open>
  \<open>_limits(k, v)\<close> pairs \<open>max\<close> with the lower bound and multiplier and \<open>min\<close>
  with the upper ones; \<open>co2_params_bounds[k]\<close> and \<open>mul[k]\<close> raise \<open>KeyError\<close>
  (\<open>None\<close>) for a key they do not hold. The dictionary comprehension of
  \<open>restrict_bounds\<close> runs over the items of the initial guess, so one failing key
  fails the call.
\<close>

definition limits :: "(real \<times> real) dict \<Rightarrow> string \<Rightarrow> real \<Rightarrow> (real \<times> real) option" where
  "limits co2_params_bounds k v =
     do {
       (b0, b1) \<leftarrow> map_of co2_params_bounds k;
       (m0, m1) \<leftarrow> map_of mul k;
       Some (max b0 (v * m0), min b1 (v * m1))
     }"

fun restrict_bounds :: "(real \<times> real) dict \<Rightarrow> real dict \<Rightarrow> (real \<times> real) dict option" where
  "restrict_bounds co2_params_bounds [] = Some []"
| "restrict_bounds co2_params_bounds ((k, v) # items) =
     do {
       l \<leftarrow> limits co2_params_bounds k v;
       rest \<leftarrow> restrict_bounds co2_params_bounds items;
       Some ((k, l) # rest)
     }"

text \<open>
  The fuel mean effective pressure as the specification writes it, for the coefficients
  \<open>a, b, c, a2, b2, l, l2, t\<close> and one normalized sample.
\<close>

definition fmep_spec ::
  "real \<Rightarrow> real \<Rightarrow> real \<Rightarrow> real \<Rightarrow> real \<Rightarrow> real \<Rightarrow> real \<Rightarrow> real \<Rightarrow> real \<Rightarrow> real \<Rightarrow> real \<Rightarrow> real" where
  "fmep_spec a b c a2 b2 l l2 t n_speed n_power n_temp =
     (let B = a + (b + c * n_speed) * n_speed;
          C = np_power n_temp (- t) * (l + l2 * n_speed ^ 2) - n_power
      in if a2 = 0 \<and> b2 = 0 then - C / B
         else (let A2 = 2 * (a2 + b2 * n_speed)
               in (- B + sqrt (abs (B ^ 2 - 2 * A2 * C))) / A2))"

subsection \<open>Calibration\<close>

text \<open>
  \<open>sklearn.metrics.mean_squared_error\<close>: the mean of the squared differences; arrays
  of different lengths or with no sample raise \<open>ValueError\<close> (\<open>None\<close>).
\<close>

definition mean_squared_error :: "real list \<Rightarrow> real list \<Rightarrow> real option" where
  "mean_squared_error y_true y_pred =
     (if length y_true = length y_pred \<and> y_true \<noteq> []
      then Some (sum_list (map (\<lambda>(x, y). (x - y) ^ 2) (zip y_true y_pred))
                 / real (length y_true))
      else None)"

type_synonym co2_emissions_model =
  "real dict \<Rightarrow> real dict option \<Rightarrow> bool list option \<Rightarrow> real list option"

type_synonym emissions_error_function =
  "real dict \<Rightarrow> real dict option \<Rightarrow> bool list option \<Rightarrow> real option"

text \<open>The closure \<open>error_func\<close> that \<open>define_co2_error_function_on_emissions\<close> returns.\<close>

definition define_co2_error_function_on_emissions ::
  "co2_emissions_model \<Rightarrow> real list \<Rightarrow> emissions_error_function" where
  "define_co2_error_function_on_emissions co2_emissions_model co2_emissions
       params default_params sub_values =
     (let x = (case sub_values of
                 None \<Rightarrow> co2_emissions
               | Some b \<Rightarrow> mask_select co2_emissions b)
      in do {
        y \<leftarrow> co2_emissions_model params default_params sub_values;
        mean_squared_error x y
      })"

text \<open>
  An argument that is either one value (a callable, an array) or a tuple of them, one
  per calibration cycle.
\<close>

datatype 'a one_or_many = One 'a | Many "'a list"

text \<open>
  scipy's \<open>minimize\<close> and \<open>brute\<close> are parameters. \<open>minimize fun x0 bounds\<close>
  gives the result's \<open>x\<close> and \<open>success\<close> and the points at which it evaluated
  \<open>fun\<close>, in order; \<open>brute fun bounds\<close> gives the best grid point, from which it calls
  \<open>finish\<close>, and the grid points it evaluated. Both give \<open>None\<close> when \<open>fun\<close>
  raised. They evaluate \<open>fun\<close> on vectors of the length of \<open>x0\<close> (of \<open>bounds\<close>).
\<close>

record optimizer_result =
  res_x :: "real list"
  res_success :: bool
  res_evaluated :: "real list list"

record optimizer =
  minimize :: "(real list \<Rightarrow> real option) \<Rightarrow> real list \<Rightarrow> (real \<times> real) list
                 \<Rightarrow> optimizer_result option"
  brute :: "(real list \<Rightarrow> real option) \<Rightarrow> (real \<times> real) list
              \<Rightarrow> (real list \<times> real list list) option"

fun sum_errors :: "real option list \<Rightarrow> real option" where
  "sum_errors [] = Some 0"
| "sum_errors (e # es) = do { x \<leftarrow> e; s \<leftarrow> sum_errors es; Some (x + s) }"

text \<open>
  The local functions of \<open>calibrate_model_params\<close>. \<open>update_params\<close> writes the
  values of a vector under the sorted keys; every call of \<open>error_func\<close> overwrites all
  entries of \<open>params\<close>, so the dictionary \<open>error_f\<close> reads is the one built from the
  current vector. \<open>min_e_and_p\<close> starts as \<open>[np.inf, None]\<close> (\<open>None\<close> here) and
  keeps the first point with the least value seen.
\<close>

definition update_params :: "string list \<Rightarrow> real dict \<Rightarrow> real list \<Rightarrow> real dict" where
  "update_params param_keys params params_values =
     dict_update params (zip param_keys params_values)"

definition error_func :: "(real dict \<Rightarrow> real option) \<Rightarrow> string list \<Rightarrow> real list \<Rightarrow> real option" where
  "error_func error_f param_keys params_values =
     error_f (update_params param_keys [] params_values)"

fun min_e_and_p ::
  "(real list \<Rightarrow> real option) \<Rightarrow> real list list \<Rightarrow> (real \<times> real list) option
     \<Rightarrow> (real \<times> real list) option" where
  "min_e_and_p f [] m = m"
| "min_e_and_p f (x # xs) m =
     (case f x of
        None \<Rightarrow> m
      | Some res \<Rightarrow>
          min_e_and_p f xs
            (case m of
               None \<Rightarrow> Some (res, x)
             | Some (e, p) \<Rightarrow> if res < e then Some (res, x) else Some (e, p)))"

text \<open>
  \<open>calibrate_model_params\<close>. \<open>EPS\<close> comes from the constants module and is a
  parameter. \<open>zip(*sorted(params_bounds.items()))\<close> cannot be unpacked for empty bounds
  (\<open>ValueError\<close>); \<open>initial_guess[k]\<close> may raise \<open>KeyError\<close>; when the minimizer
  fails and no point was evaluated, \<open>update_params(None)\<close> raises \<open>TypeError\<close>.
\<close>

definition calibrate_model_params ::
  "optimizer \<Rightarrow> real \<Rightarrow> (real \<times> real) dict \<Rightarrow> (real dict \<Rightarrow> real option) one_or_many
     \<Rightarrow> real dict option \<Rightarrow> real dict option" where
  "calibrate_model_params opt EPS params_bounds error_function initial_guess =
     (let error_f = (case error_function of
                       One f \<Rightarrow> f
                     | Many fs \<Rightarrow> (\<lambda>p. sum_errors (map (\<lambda>f. f p) fs)));
          items = sort_key fst params_bounds
      in if items = [] then None
         else
           (let param_keys = map fst items;
                params_bounds = map (\<lambda>(k, (i, j)). (i - EPS, j + EPS)) items;
                fun = error_func error_f param_keys
            in do {
              (x0, grid) \<leftarrow>
                (case initial_guess of
                   None \<Rightarrow> brute opt fun params_bounds
                 | Some g \<Rightarrow> map_option (\<lambda>x0. (x0, [])) (those (map (map_of g) param_keys)));
              res \<leftarrow> minimize opt fun x0 params_bounds;
              x \<leftarrow> (if res_success res then Some (res_x res)
                    else map_option snd (min_e_and_p fun (grid @ res_evaluated res) None));
              Some (update_params param_keys [] x)
            }))"

text \<open>
  \<open>calibrate_co2_params\<close>. Its local \<open>err_f\<close> calls the emissions error function
  when \<open>co2_error_function_on_phases\<close> is callable, and otherwise sums the functions of
  the cycles that have a selected sample; arguments of the other shape raise
  \<open>TypeError\<close> (\<open>None\<close>).
\<close>

definition err_f ::
  "(real dict \<Rightarrow> real option) one_or_many \<Rightarrow> emissions_error_function one_or_many
     \<Rightarrow> real dict \<Rightarrow> real dict option \<Rightarrow> bool list one_or_many \<Rightarrow> real option" where
  "err_f co2_error_function_on_phases co2_error_function_on_emissions
       params default_params sub_values =
     (case (co2_error_function_on_phases, co2_error_function_on_emissions, sub_values) of
        (One _, One f, One b) \<Rightarrow> f params default_params (Some b)
      | (Many _, Many fs, Many bs) \<Rightarrow>
          sum_errors (map (\<lambda>(f, b). f params default_params (Some b))
                        (filter (\<lambda>(f, b). list_ex id b) (zip fs bs)))
      | _ \<Rightarrow> None)"

definition calibrate ::
  "optimizer \<Rightarrow> real \<Rightarrow> (real dict \<Rightarrow> real dict option \<Rightarrow> bool list one_or_many \<Rightarrow> real option)
     \<Rightarrow> (real \<times> real) dict \<Rightarrow> real dict \<Rightarrow> string list \<Rightarrow> real dict option
     \<Rightarrow> bool list one_or_many \<Rightarrow> real dict option" where
  "calibrate opt EPS err bounds guess id_p default_params sub_values =
     (let limits = filter (\<lambda>(k, v). k \<in> set id_p) bounds;
          initial = filter (\<lambda>(k, v). k \<in> set id_p) guess;
          f = (\<lambda>params. err params default_params sub_values)
      in calibrate_model_params opt EPS limits (One f) (Some initial))"

definition hot_p :: "string list" where
  "hot_p = [''a2'', ''a'', ''b'', ''c'', ''l'', ''l2'']"

definition cold_p :: "string list" where
  "cold_p = [''t'', ''trg'']"

definition cold_samples :: "real list one_or_many \<Rightarrow> real \<Rightarrow> bool list one_or_many" where
  "cold_samples temps trg =
     (case temps of
        One ts \<Rightarrow> One (map (\<lambda>T. T < trg) ts)
      | Many tss \<Rightarrow> Many (map (map (\<lambda>T. T < trg)) tss))"

definition logical_not :: "bool list one_or_many \<Rightarrow> bool list one_or_many" where
  "logical_not b =
     (case b of
        One bs \<Rightarrow> One (map Not bs)
      | Many bss \<Rightarrow> Many (map (map Not) bss))"

definition mask_any :: "bool list one_or_many \<Rightarrow> bool" where
  "mask_any b =
     (case b of
        One bs \<Rightarrow> list_ex id bs
      | Many bss \<Rightarrow> list_ex (list_ex id) bss)"

definition calibrate_co2_params ::
  "optimizer \<Rightarrow> real \<Rightarrow> real list one_or_many \<Rightarrow> emissions_error_function one_or_many
     \<Rightarrow> (real dict \<Rightarrow> real option) one_or_many \<Rightarrow> (real \<times> real) dict \<Rightarrow> real dict
     \<Rightarrow> real dict option" where
  "calibrate_co2_params opt EPS coolant_temperatures co2_error_function_on_emissions
       co2_error_function_on_phases co2_params_bounds co2_params_initial_guess =
     do {
       trg \<leftarrow> map_of co2_params_initial_guess ''trg'';
       let cold = cold_samples coolant_temperatures trg;
       let hot = logical_not cold;
       let err = err_f co2_error_function_on_phases co2_error_function_on_emissions;
       p \<leftarrow> calibrate opt EPS err co2_params_bounds co2_params_initial_guess
              hot_p (Some []) hot;
       p \<leftarrow> (if mask_any cold
              then do {
                q \<leftarrow> calibrate opt EPS err co2_params_bounds co2_params_initial_guess
                       cold_p (Some p) cold;
                Some (dict_update p q)
              }
              else do {
                t \<leftarrow> map_of co2_params_initial_guess ''t'';
                Some (AList.update ''t'' t (AList.update ''trg'' trg p))
              });
       bounds \<leftarrow> restrict_bounds co2_params_bounds p;
       calibrate_model_params opt EPS bounds co2_error_function_on_phases (Some p)
     }"

section \<open>Model selection (\<open>functions/physical/__init__.py\<close>)\<close>

text \<open>
  A calibration output and a set of extracted models are dictionaries over values of
  some type \<open>'v\<close>. A score is a float that may be NaN: \<open>np.nan\<close>, which is one
  object, or a NaN that an array function computed, which is a new object each time.
  The graph engine's \<open>dispatch\<close> and sklearn's \<open>mean_absolute_error\<close> are
  parameters; \<open>None\<close> is an exception they raise.
\<close>

datatype score = Num real | Nan | NanNew

fun is_num :: "score \<Rightarrow> bool" where
  "is_num (Num x) = True"
| "is_num Nan = False"
| "is_num NanNew = False"

fun num_of :: "score \<Rightarrow> real" where
  "num_of (Num x) = x"
| "num_of Nan = 0"
| "num_of NanNew = 0"

text \<open>
  \<open>np.average\<close> with weights raises \<open>ZeroDivisionError\<close> when the weights sum to
  zero; \<open>np.mean\<close> and \<open>np.average\<close> give NaN as soon as one element is NaN.
\<close>

definition np_average :: "score list \<Rightarrow> real list \<Rightarrow> score option" where
  "np_average a weights =
     (if sum_list weights = 0 then None
      else if list_all is_num a
        then Some (Num (sum_list (map (\<lambda>(e, w). num_of e * w) (zip a weights))
                        / sum_list weights))
        else Some NanNew)"

definition np_mean :: "score list \<Rightarrow> score" where
  "np_mean a =
     (if list_all is_num a then Num (sum_list (map num_of a) / real (length a)) else NanNew)"

text \<open>
  \<open>compare_result\<close>. \<open>zip_longest(target_ids, sample_weight, fillvalue=1)\<close> gives
  a missing weight the value 1; a weight beyond the targets is paired with the target
  \<open>1\<close>, which is no key of a result, and is skipped.
\<close>

definition compare_result ::
  "('v \<Rightarrow> 'v \<Rightarrow> score option) \<Rightarrow> string list \<Rightarrow> 'v dict \<Rightarrow> 'v dict \<Rightarrow> real list
     \<Rightarrow> score option" where
  "compare_result mean_absolute_error target_ids model_results target_results sample_weight =
     (let ws = sample_weight @ replicate (length target_ids - length sample_weight) 1;
          found = filter (\<lambda>(t, w). dict_contains t model_results \<and> dict_contains t target_results)
                    (zip target_ids ws)
      in do {
        err \<leftarrow> those (map (\<lambda>(t, w).
                 mean_absolute_error (the (map_of target_results t)) (the (map_of model_results t)))
               found);
        let weights = map snd found;
        if err \<noteq> [] then np_average err weights else Some Nan
      })"

definition get_inputs ::
  "'v dict \<Rightarrow> 'v dict \<Rightarrow> string list \<Rightarrow> string list \<Rightarrow> 'v dict option" where
  "get_inputs extracted_models outputs models targets =
     (let inputs = filter (\<lambda>(k, v). k \<notin> set targets) outputs
      in map_option (dict_update inputs)
           (those (map (\<lambda>m. map_option (Pair m) (map_of extracted_models m)) models)))"

text \<open>
  The entries of the heap are the tuples \<open>(err, len(e_mods), co_i, m)\<close>. Python
  compares two tuples at the first position where the items are neither the same object
  nor equal; two dictionaries that differ cannot be ordered (\<open>TypeError\<close>, \<open>None\<close>).
  Nothing is less than a NaN and a NaN is less than nothing.
\<close>

type_synonym 'v entry = "score \<times> nat \<times> string \<times> 'v dict"

fun score_same :: "score \<Rightarrow> score \<Rightarrow> bool" where
  "score_same (Num x) (Num y) = (x = y)"
| "score_same Nan Nan = True"
| "score_same x y = False"

fun score_less :: "score \<Rightarrow> score \<Rightarrow> bool" where
  "score_less (Num x) (Num y) = (x < y)"
| "score_less x y = False"

fun entry_less :: "'v entry \<Rightarrow> 'v entry \<Rightarrow> bool option" where
  "entry_less (e1, n1, c1, m1) (e2, n2, c2, m2) =
     (if \<not> score_same e1 e2 then Some (score_less e1 e2)
      else if n1 \<noteq> n2 then Some (n1 < n2)
      else if c1 \<noteq> c2 then Some (c1 < c2)
      else if set m1 \<noteq> set m2 then None
      else Some False)"

text \<open>\<open>heapq.heappush\<close>: append the item, then \<open>_siftdown(heap, 0, len(heap) - 1)\<close>.\<close>

function siftdown :: "'v entry list \<Rightarrow> nat \<Rightarrow> nat \<Rightarrow> 'v entry \<Rightarrow> 'v entry list option" where
  "siftdown heap startpos pos newitem =
     (if pos > startpos
      then (let parentpos = (pos - 1) div 2;
                parent = heap ! parentpos
            in case entry_less newitem parent of
                 None \<Rightarrow> None
               | Some True \<Rightarrow> siftdown (heap[pos := parent]) startpos parentpos newitem
               | Some False \<Rightarrow> Some (heap[pos := newitem]))
      else Some (heap[pos := newitem]))"
  by pat_completeness auto
termination
  by (relation "measure (\<lambda>(heap, startpos, pos, newitem). pos)") auto

definition heappush :: "'v entry list \<Rightarrow> 'v entry \<Rightarrow> 'v entry list option" where
  "heappush heap item = siftdown (heap @ [item]) 0 (length heap) item"

text \<open>
  A family descriptor of \<open>comparison_model\<close>: \<open>d.get('get_inputs', get_inputs)\<close> and
  \<open>d.get('post_processing', lambda *args: None)\<close> are the optional fields. The
  selection in progress is the dictionary \<open>models\<close> with its
  \<open>'origin calibrated_models'\<close> entry kept apart.
\<close>

record 'v selection =
  sel_models :: "'v dict"
  sel_origin :: "string dict"

record 'v family =
  fam_models :: "string list"
  fam_targets :: "string list"
  fam_get_inputs :: "('v dict \<Rightarrow> 'v dict \<Rightarrow> string list \<Rightarrow> string list \<Rightarrow> 'v dict option) option"
  fam_post_processing :: "('v selection \<Rightarrow> 'v dict list \<Rightarrow> 'v dict option) option"

text \<open>The names and targets of the families that \<open>comparison_model\<close> lists, in order.\<close>

definition comparison_model_targets :: "(string list \<times> string list) list" where
  "comparison_model_targets =
     [([''max_gear''], []),
      ([''engine_temperature_regression_model''], [''engine_temperatures'']),
      ([''start_stop_model''], [''on_engine'']),
      ([''cold_start_speed_model'', ''idle_engine_speed'', ''engine_thermostat_temperature''],
       [''engine_speeds_out'']),
      ([''co2_params''], [''co2_emissions'']),
      ([''co2_params''], [''co2_emissions'']),
      ([''alternator_charging_currents'', ''start_demand'', ''max_battery_charging_current'',
        ''electric_load'', ''alternator_status_model''],
       [''alternator_currents'', ''battery_currents'']),
      ([''AT_gear_shifting_model'', ''correct_gear'', ''upper_bound_engine_speed''],
       [''gears''])]"

text \<open>
  \<open>error_fun\<close> of \<open>model_selector\<close>, with the heap it pushes to as state. A held-out
  record is comparable when some target is among its keys.
\<close>

definition comparable :: "string list \<Rightarrow> 'v dict \<Rightarrow> bool" where
  "comparable trgs t = (\<not> list_all (\<lambda>k. \<not> dict_contains k t) trgs)"

definition error_fun ::
  "('v dict \<Rightarrow> string list \<Rightarrow> 'v dict option) \<Rightarrow> ('v \<Rightarrow> 'v \<Rightarrow> score option) \<Rightarrow> 'v family
     \<Rightarrow> 'v entry list \<Rightarrow> 'v dict \<Rightarrow> 'v dict list \<Rightarrow> string \<Rightarrow> 'v entry list option" where
  "error_fun dispatch mean_absolute_error d heap e_mods res_t co_i =
     (let mods = fam_models d;
          trgs = fam_targets d;
          get_i = (case fam_get_inputs d of None \<Rightarrow> get_inputs | Some g \<Rightarrow> g)
      in if list_ex (\<lambda>m. \<not> dict_contains m e_mods) mods then Some heap
         else do {
           err \<leftarrow> those (map (\<lambda>t. do {
                      i \<leftarrow> get_i e_mods t mods trgs;
                      pred \<leftarrow> dispatch i trgs;
                      compare_result mean_absolute_error trgs pred t []
                    })
                  (filter (comparable trgs) res_t));
           let m = map (\<lambda>k. (k, the (map_of e_mods k)))
                     (filter (\<lambda>k. dict_contains k e_mods) mods);
           let err = (if err \<noteq> [] then np_mean err else Nan);
           heappush heap (err, length e_mods, co_i, m)
         })"

text \<open>
  The body of the loop over the families: every candidate \<open>(e_mods, res_t, co_i)\<close> of
  \<open>em_rt\<close> is evaluated, then the post-processed candidate \<open>'ALL'\<close> if there is one,
  and the top of a non-empty heap is selected. \<open>heap_flush\<close> pops the entries in heap
  order, so \<open>rank[0]\<close> is \<open>heap[0]\<close>.
\<close>

fun evaluate_candidates ::
  "('v dict \<Rightarrow> string list \<Rightarrow> 'v dict option) \<Rightarrow> ('v \<Rightarrow> 'v \<Rightarrow> score option) \<Rightarrow> 'v family
     \<Rightarrow> 'v entry list \<Rightarrow> ('v dict \<times> 'v dict list \<times> string) list \<Rightarrow> 'v entry list option" where
  "evaluate_candidates dispatch mae d heap [] = Some heap"
| "evaluate_candidates dispatch mae d heap ((e_mods, res_t, co_i) # em_rt) =
     do {
       heap \<leftarrow> error_fun dispatch mae d heap e_mods res_t co_i;
       evaluate_candidates dispatch mae d heap em_rt
     }"

definition select_family ::
  "('v dict \<Rightarrow> string list \<Rightarrow> 'v dict option) \<Rightarrow> ('v \<Rightarrow> 'v \<Rightarrow> score option)
     \<Rightarrow> ('v dict \<times> 'v dict list \<times> string) list \<Rightarrow> 'v dict list \<Rightarrow> 'v selection \<Rightarrow> 'v family
     \<Rightarrow> 'v selection option" where
  "select_family dispatch mae em_rt co models d =
     do {
       heap \<leftarrow> evaluate_candidates dispatch mae d [] em_rt;
       let e_mods = (case fam_post_processing d of
                       None \<Rightarrow> None
                     | Some post \<Rightarrow> post models co);
       heap \<leftarrow> (case e_mods of
                  None \<Rightarrow> Some heap
                | Some e \<Rightarrow> if e \<noteq> [] then error_fun dispatch mae d heap e co ''ALL''
                            else Some heap);
       Some (case heap of
               [] \<Rightarrow> models
             | (err, n, co_i, m) # rest \<Rightarrow>
                 \<lparr>sel_models = dict_update (sel_models models) m,
                  sel_origin = dict_update (sel_origin models)
                                 (map (\<lambda>k. (k, co_i)) (fam_models d))\<rparr>)
     }"

section \<open>The command line (\<open>compas/__main__.py\<close>)\<close>

text \<open>
  The file system maps a path to a file with its content or to a directory.
  \<open>open(path, 'wb')\<close> raises \<open>OSError\<close> when the path is a directory or its
  directory does not exist, and otherwise creates or truncates the file; permissions and
  an interrupted copy are outside the model. \<open>os.path.abspath\<close> depends on the
  working directory and is a parameter. A command returns the world it leaves and the
  exception it raised, if any.
\<close>

datatype node = File string | Dir

datatype exn = CmdException string | NotImplementedError | OSError string

record world =
  fs :: "string \<Rightarrow> node option"
  stderr :: "string list"

definition path_exists :: "world \<Rightarrow> string \<Rightarrow> bool" where
  "path_exists w path = (fs w path \<noteq> None)"

definition isdir :: "world \<Rightarrow> string \<Rightarrow> bool" where
  "isdir w path = (fs w path = Some Dir)"

definition endswith :: "string \<Rightarrow> string \<Rightarrow> bool" where
  "endswith s suffix =
     (length suffix \<le> length s \<and> drop (length s - length suffix) s = suffix)"

text \<open>\<open>os.path.dirname\<close> and \<open>os.path.join\<close> of two parts, for POSIX paths.\<close>

definition dirname :: "string \<Rightarrow> string" where
  "dirname p =
     (let head = rev (dropWhile (\<lambda>c. c \<noteq> CHR ''/'') (rev p))
      in if list_all (\<lambda>c. c = CHR ''/'') head then head
         else rev (dropWhile (\<lambda>c. c = CHR ''/'') (rev head)))"

definition path_join :: "string \<Rightarrow> string \<Rightarrow> string" where
  "path_join a b =
     (if take 1 b = ''/'' then b
      else if a = [] \<or> endswith a ''/'' then a @ b
      else a @ ''/'' @ b)"

definition write_file :: "world \<Rightarrow> string \<Rightarrow> string \<Rightarrow> exn option \<times> world" where
  "write_file w path content =
     (if isdir w path \<or> \<not> isdir w (dirname path) then (Some (OSError path), w)
      else (None, w\<lparr>fs := (fs w)(path \<mapsto> File content)\<rparr>))"

definition print_stderr :: "string \<Rightarrow> world \<Rightarrow> world" where
  "print_stderr msg w = w\<lparr>stderr := stderr w @ [msg]\<rparr>"

text \<open>\<open>"...'%s'..." % path\<close>: the path between two apostrophes.\<close>

definition quoted :: "string \<Rightarrow> string" where
  "quoted path = [CHR 0x27] @ path @ [CHR 0x27]"

text \<open>The options that \<open>docopt\<close> parses from the command line.\<close>

record opts =
  opt_template :: bool
  opt_example :: bool
  opt_ipynb :: bool
  opt_excel_file_path :: "string list"
  opt_folder :: string
  opt_force :: bool
  opt_I :: string
  opt_O :: string
  opt_plot_workflow :: bool
  opt_no_warn_gui :: bool
  opt_more_output :: bool

text \<open>
  What the package bundles and what lies outside the sources: the template file, the
  demo input files, \<open>abspath\<close>, and \<open>_run_simulation\<close> with its dialogs and the
  batch run.
\<close>

record env =
  abspath :: "string \<Rightarrow> string"
  input_template :: string
  demo_input_files :: "string dict"
  run_simulation :: "opts \<Rightarrow> world \<Rightarrow> exn option \<times> world"

definition cmd_ipynb :: "opts \<Rightarrow> world \<Rightarrow> exn option \<times> world" where
  "cmd_ipynb opts w = (Some NotImplementedError, w)"

fun cmd_template_paths :: "env \<Rightarrow> bool \<Rightarrow> string list \<Rightarrow> world \<Rightarrow> exn option \<times> world" where
  "cmd_template_paths e force [] w = (None, w)"
| "cmd_template_paths e force (fpath # dst_fpaths) w =
     (let fpath = abspath e fpath;
          fpath = (if \<not> endswith fpath ''.xlsx'' then fpath @ ''.xlsx'' else fpath)
      in if path_exists w fpath \<and> \<not> force
         then (Some (CmdException
                 (''File '' @ quoted fpath @ '' already exists! Use '' @ quoted ''-f''
                    @ '' to overwrite it.'')), w)
         else if isdir w fpath
         then (Some (CmdException
                 (''Expecting a file-name instead of directory '' @ quoted fpath @ ''!'')), w)
         else
           (let w = print_stderr
                      (''Creating co2mpas TEMPLATE input-file '' @ quoted fpath @ ''...'') w
            in case write_file w fpath (input_template e) of
                 (Some x, w) \<Rightarrow> (Some x, w)
               | (None, w) \<Rightarrow> cmd_template_paths e force dst_fpaths w))"

definition cmd_template :: "env \<Rightarrow> opts \<Rightarrow> world \<Rightarrow> exn option \<times> world" where
  "cmd_template e opts w = cmd_template_paths e (opt_force opts) (opt_excel_file_path opts) w"

fun cmd_example_files :: "string \<Rightarrow> bool \<Rightarrow> (string \<times> string) list \<Rightarrow> world \<Rightarrow> exn option \<times> world" where
  "cmd_example_files dst_folder force [] w = (None, w)"
| "cmd_example_files dst_folder force ((src_fname, stream) # files) w =
     (let dst_fpath = path_join dst_folder src_fname
      in if path_exists w dst_fpath \<and> \<not> force
         then cmd_example_files dst_folder force files
                (print_stderr (''Skipping file '' @ quoted dst_fpath @ '', already exists! Use ''
                   @ quoted ''-f'' @ '' to overwrite it.'') w)
         else
           (let w = print_stderr
                      (''Creating co2mpas EXAMPLE input-file '' @ quoted dst_fpath @ ''...'') w
            in case write_file w dst_fpath stream of
                 (Some x, w) \<Rightarrow> (Some x, w)
               | (None, w) \<Rightarrow> cmd_example_files dst_folder force files w))"

definition cmd_example :: "env \<Rightarrow> opts \<Rightarrow> world \<Rightarrow> exn option \<times> world" where
  "cmd_example e opts w =
     (let dst_folder = abspath e (opt_folder opts)
      in if \<not> path_exists w dst_folder
         then (Some (CmdException
                 (''Destination folder '' @ quoted dst_folder @ '' does not exist!'')), w)
         else if \<not> isdir w dst_folder
         then (Some (CmdException
                 (''Destination '' @ quoted dst_folder @ '' is not a <folder>!'')), w)
         else cmd_example_files dst_folder (opt_force opts)
                (sort_key fst (demo_input_files e)) w)"

text \<open>\<open>_main\<close> after \<open>docopt\<close> has parsed the arguments.\<close>

definition main_throwing :: "env \<Rightarrow> opts \<Rightarrow> world \<Rightarrow> exn option \<times> world" where
  "main_throwing e opts w =
     (if opt_template opts then cmd_template e opts w
      else if opt_example opts then cmd_example e opts w
      else if opt_ipynb opts then cmd_ipynb opts w
      else run_simulation e opts w)"

text \<open>
  \<open>main\<close> catches \<open>CmdException\<close> only and calls \<open>exit\<close> with its message; any
  other exception leaves \<open>main\<close>. The interpreter ends the process: a return is the
  status 0; \<open>SystemExit\<close> with a message prints the message and gives the status 1; an
  uncaught exception prints its traceback and gives the status 1.
\<close>

datatype outcome = Returned | SystemExit string | Uncaught exn

definition main :: "env \<Rightarrow> opts \<Rightarrow> world \<Rightarrow> outcome \<times> world" where
  "main e opts w =
     (case main_throwing e opts w of
        (None, w) \<Rightarrow> (Returned, w)
      | (Some (CmdException msg), w) \<Rightarrow> (SystemExit msg, w)
      | (Some ex, w) \<Rightarrow> (Uncaught ex, w))"

datatype report = Silent | Message string | Traceback exn

fun process_end :: "outcome \<Rightarrow> nat \<times> report" where
  "process_end Returned = (0, Silent)"
| "process_end (SystemExit msg) = (1, Message msg)"
| "process_end (Uncaught ex) = (1, Traceback ex)"


text \<open>
  A small environment on which the commands are run in the closed instances below: the
  working directory \<open>/home\<close> exists and is empty.
\<close>

definition example_env :: env where
  "example_env = \<lparr>abspath = (\<lambda>p. ''/home/'' @ p), input_template = ''template-bytes'',
     demo_input_files = [], run_simulation = (\<lambda>opts w. (None, w))\<rparr>"

definition example_world :: world where
  "example_world = \<lparr>fs = [''/home'' \<mapsto> Dir], stderr = []\<rparr>"

definition example_opts :: opts where
  "example_opts = \<lparr>opt_template = False, opt_example = False, opt_ipynb = False,
     opt_excel_file_path = [], opt_folder = [], opt_force = False,
     opt_I = ''./input'', opt_O = ''./output'', opt_plot_workflow = False,
     opt_no_warn_gui = False, opt_more_output = False\<rparr>"

text \<open>
  Inputs for a closed run of \<open>calibrate_co2_params\<close>: a minimizer that evaluates its
  objective at \<open>x0\<close> and moves every coordinate of \<open>x0\<close> by the value; a cycle of one
  sample whose coolant temperature in the model's own array is \<open>\<theta>\<close>; an initial guess
  with \<open>t = 1\<close> and \<open>trg = 90\<close>; and the dictionary that \<open>update_params\<close> builds from
  the initial vector of the hot-phase stage.
\<close>

definition example_optimizer :: optimizer where
  "example_optimizer =
     \<lparr>minimize = (\<lambda>f x0 bounds.
          map_option (\<lambda>v. \<lparr>res_x = map (\<lambda>xi. xi + v) x0, res_success = True,
                              res_evaluated = [x0]\<rparr>) (f x0)),
      brute = (\<lambda>f bounds. None)\<rparr>"

definition example_inputs :: "real \<Rightarrow> co2_model_inputs" where
  "example_inputs \<theta> =
     \<lparr>engine_speeds_out = [1200], engine_powers_out = [10], mean_piston_speeds = [4],
      brake_mean_effective_pressures = [3], engine_coolant_temperatures = [\<theta>],
      on_engine = [True], engine_fuel_lower_heating_value = 1000,
      idle_engine_speed = (800, 50), engine_stroke = 80, engine_capacity = 1000,
      engine_idle_fuel_consumption = 0.2, fuel_carbon_content = 1\<rparr>"

definition example_guess :: "real dict" where
  "example_guess =
     [(''t'', 1), (''trg'', 90), (''a'', 1), (''b'', 0), (''c'', 0), (''a2'', 0),
      (''l'', -1), (''l2'', 0)]"

definition example_bounds :: "(real \<times> real) dict" where
  "example_bounds =
     [(''t'', (0, 8)), (''trg'', (80, 100)), (''a'', (-10, 10)), (''b'', (-10, 10)),
      (''c'', (-10, 10)), (''a2'', (-10, 10)), (''l'', (-10, 10)), (''l2'', (-10, 10))]"

definition example_x0 :: "real dict" where
  "example_x0 = [(''a'', 1), (''a2'', 0), (''b'', 0), (''c'', 0), (''l'', -1), (''l2'', 0)]"

section \<open>Properties\<close>

lemma str_upper_WLTP: "str_upper ''WLTP'' = ''WLTP''"
  by (simp add: str_upper_def upper_char_def)

lemma str_upper_NEDC: "str_upper ''NEDC'' = ''NEDC''"
  by (simp add: str_upper_def upper_char_def)

text \<open>
  C5. \<open>select_phases_integration_times\<close> returns (0, 590, 1023, 1478, 1801) for
  \<open>'WLTP'\<close> and (0, 780, 1181) for \<open>'NEDC'\<close>; the registry's table holds
  (0, 590, 1023, 1478, 1800) and (0, 780, 1180); the last elements of the two copies
  differ by one second and the other elements agree.
\<close>

theorem select_phases_integration_times_tables:
  "select_phases_integration_times ''WLTP'' = Some [0, 590, 1023, 1478, 1801]
   \<and> select_phases_integration_times ''NEDC'' = Some [0, 780, 1181]
   \<and> map_of INTEGRATION_TIMES ''WLTP'' = Some [0, 590, 1023, 1478, 1800]
   \<and> map_of INTEGRATION_TIMES ''NEDC'' = Some [0, 780, 1180]
   \<and> map_option last (select_phases_integration_times ''WLTP'')
       = map_option (\<lambda>ts. last ts + 1) (map_of INTEGRATION_TIMES ''WLTP'')
   \<and> map_option last (select_phases_integration_times ''NEDC'')
       = map_option (\<lambda>ts. last ts + 1) (map_of INTEGRATION_TIMES ''NEDC'')
   \<and> map_option butlast (select_phases_integration_times ''WLTP'')
       = map_option butlast (map_of INTEGRATION_TIMES ''WLTP'')
   \<and> map_option butlast (select_phases_integration_times ''NEDC'')
       = map_option butlast (map_of INTEGRATION_TIMES ''NEDC'')"
  by (simp add: select_phases_integration_times_def integration_times_def
      INTEGRATION_TIMES_def str_upper_WLTP str_upper_NEDC)

subsection \<open>Dictionaries\<close>

lemma map_of_fold_update:
  "distinct (map fst e) \<Longrightarrow>
   map_of (fold (\<lambda>(k, v). AList.update k v) e d) k
     = (case map_of e k of Some v \<Rightarrow> Some v | None \<Rightarrow> map_of d k)"
proof (induction e arbitrary: d)
  case Nil
  then show ?case by simp
next
  case (Cons x e)
  obtain k' v' where x: "x = (k', v')" by (cases x)
  from Cons.prems have d: "distinct (map fst e)" and n: "k' \<notin> fst ` set e"
    by (simp_all add: x)
  from n have "map_of e k' = None"
    by (simp add: map_of_eq_None_iff)
  then show ?case
    by (auto simp add: x Cons.IH [OF d] update_conv' split: option.splits)
qed

lemma map_of_dict_update:
  "distinct (dict_keys e) \<Longrightarrow>
   map_of (dict_update d e) k = (case map_of e k of Some v \<Rightarrow> Some v | None \<Rightarrow> map_of d k)"
  unfolding dict_update_def dict_keys_def by (rule map_of_fold_update)

lemma dict_contains_iff: "dict_contains k d \<longleftrightarrow> k \<in> set (dict_keys d)"
  by (simp add: dict_contains_def dict_keys_def map_of_eq_None_iff)

lemma keys_fold_update:
  "fst ` set (fold (\<lambda>(k, v). AList.update k v) e d) = fst ` set d \<union> fst ` set e"
proof (induction e arbitrary: d)
  case Nil
  then show ?case by simp
next
  case (Cons x e)
  obtain k v where x: "x = (k, v)" by (cases x)
  have "fst ` set (AList.update k v d) = insert k (fst ` set d)"
    using dom_update [of k v d] by (simp add: dom_map_of_conv_image_fst)
  then show ?case
    by (simp add: x Cons.IH)
qed

lemma keys_dict_update:
  "set (dict_keys (dict_update d e)) = set (dict_keys d) \<union> set (dict_keys e)"
  by (simp add: dict_update_def dict_keys_def keys_fold_update)

subsection \<open>Brake mean effective pressure at engine speed 0\<close>

lemma DBL_MAX_pos: "0 < DBL_MAX"
  by (simp add: DBL_MAX_def)

lemma bmep_sample_zero_speed:
  "c \<noteq> 0 \<Longrightarrow>
   nan_to_num (np_div (np_mul (np_div (Fin 1200000.0) (Fin c)) (Fin w)) (Fin 0))
     = Fin (if w = 0 then 0 else if 0 < w / c then DBL_MAX else - DBL_MAX)"
  by (simp add: zero_less_mult_iff zero_less_divide_iff)

text \<open>
  C3, as amended. For every finite non-zero \<open>engine_capacity\<close> and every array of finite
  \<open>engine_powers_out\<close>, \<open>calculate_brake_mean_effective_pressures\<close> called with
  \<open>engine_speeds_out\<close> all 0 raises no error and returns, sample by sample, 0 where the
  power is 0 (0/0 is NaN, which \<open>np.nan_to_num\<close> turns into 0) and the largest finite
  float64 with the sign of power/capacity where the power is not 0: an infinite quotient is
  coerced to that number, not to 0.
\<close>

theorem bmep_zero_speed:
  assumes "c \<noteq> 0"
  shows "calculate_brake_mean_effective_pressures
           (replicate (length ws) (Fin 0)) (map Fin ws) (Fin c)
         = Some (map (\<lambda>w. Fin (if w = 0 then 0 else if 0 < w / c then DBL_MAX else - DBL_MAX))
                   ws)"
proof -
  have z: "zip (map Fin ws) (replicate (length ws) (Fin 0)) = map (\<lambda>w. (Fin w, Fin 0)) ws"
    by (induction ws) simp_all
  show ?thesis
    using assms bmep_sample_zero_speed [OF assms]
    by (simp add: calculate_brake_mean_effective_pressures_def py_div_def z comp_def
        del: np_div.simps np_mul.simps nan_to_num.simps)
qed

theorem bmep_zero_speed_witness:
  "calculate_brake_mean_effective_pressures [Fin 0, Fin 0, Fin 0] [Fin 0, Fin 10, Fin (- 10)]
      (Fin 1000)
   = Some [Fin 0, Fin DBL_MAX, Fin (- DBL_MAX)]"
  using bmep_zero_speed [of 1000 "[0, 10, - 10]"]
  by (simp add: numeral_3_eq_3)

text \<open>
  The claim as stated fails for a non-zero power: capacity 1000, power 10 and speed 0
  give the largest finite float64, not 0.
\<close>

theorem bmep_zero_speed_counterexample:
  "calculate_brake_mean_effective_pressures [Fin 0] [Fin 10] (Fin 1000) = Some [Fin DBL_MAX]
   \<and> Fin DBL_MAX \<noteq> Fin 0"
  using DBL_MAX_pos
  by (simp add: calculate_brake_mean_effective_pressures_def py_div_def)

subsection \<open>Fuel mean effective pressure\<close>

text \<open>
  C2. For every parameter set \<open>p\<close> (a dictionary holding the coefficients) and every
  normalized sample, the fuel mean effective pressure, the first component of what
  \<open>_calculate_fuel_mean_effective_pressure\<close> returns, is \<open>-C/B\<close> when \<open>a2 = 0\<close> and
  \<open>b2 = 0\<close>, and otherwise \<open>(-B + sqrt |B^2 - 2*A2*C|) / A2\<close> with
  \<open>A2 = 2*(a2 + b2*n_speed)\<close>, where \<open>B = a + (b + c*n_speed)*n_speed\<close> and
  \<open>C = n_temp^(-t)*(l + l2*n_speed^2) - n_power\<close>.
\<close>

theorem fmep_formula:
  assumes "map_of p ''a'' = Some a" "map_of p ''b'' = Some b" "map_of p ''c'' = Some c"
    "map_of p ''a2'' = Some a2" "map_of p ''b2'' = Some b2" "map_of p ''l'' = Some l"
    "map_of p ''l2'' = Some l2" "map_of p ''t'' = Some t"
  shows "map_option fst (calculate_fuel_mean_effective_pressure p n_speed n_power n_temp)
         = Some (fmep_spec a b c a2 b2 l l2 t n_speed n_power n_temp)"
  using assms
  by (simp add: calculate_fuel_mean_effective_pressure_def fmep_spec_def Let_def)

theorem fmep_formula_witness:
  "map_option fst (calculate_fuel_mean_effective_pressure
      [(''a'', 1), (''b'', 0), (''c'', 0), (''a2'', 1), (''b2'', 0), (''l'', 0), (''l2'', 0),
       (''t'', 0)] 1 2 1) = Some 1
   \<and> map_option fst (calculate_fuel_mean_effective_pressure
      [(''a'', 2), (''b'', 0), (''c'', 0), (''a2'', 0), (''b2'', 0), (''l'', 1), (''l2'', 0),
       (''t'', 0)] 1 5 1) = Some 2"
proof -
  have s: "sqrt 9 = 3"
    using real_sqrt_abs [of 3] by simp
  have q: "fmep_spec 1 0 0 1 0 0 0 0 1 2 1 = 1"
    by (simp add: fmep_spec_def np_power_def Let_def s)
  have l: "fmep_spec 2 0 0 0 0 1 0 0 1 5 1 = 2"
    by (simp add: fmep_spec_def np_power_def Let_def)
  show ?thesis
    using fmep_formula [of "[(''a'', 1), (''b'', 0), (''c'', 0), (''a2'', 1), (''b2'', 0),
        (''l'', 0), (''l2'', 0), (''t'', 0)]" 1 0 0 1 0 0 0 0 1 2 1]
      fmep_formula [of "[(''a'', 2), (''b'', 0), (''c'', 0), (''a2'', 0), (''b2'', 0),
        (''l'', 1), (''l2'', 0), (''t'', 0)]" 2 0 0 0 0 1 0 0 1 5 1]
    by (simp add: q l)
qed

subsection \<open>Effective coefficients of \<open>calculate_co2_emissions\<close>\<close>

lemma effective_value:
  assumes "k \<in> set coefficient_keys" "distinct (dict_keys params)"
    "case default_params of None \<Rightarrow> True | Some d \<Rightarrow> distinct (dict_keys d)"
  shows "map_of (co2_effective_params params default_params) k
         = Some (effective_value_spec params default_params k)"
proof -
  have z: "map_of zero_params k = Some 0"
    using assms by (auto simp add: coefficient_keys_def zero_params_def)
  show ?thesis
    using assms(2,3)
    by (auto simp add: co2_effective_params_def effective_value_spec_def map_of_dict_update z
        dict_contains_def Let_def split: option.splits)
qed

lemma prologue_store:
  assumes "params < length h"
    and "case default_params of None \<Rightarrow> True | Some d \<Rightarrow> d < length h"
  shows "fst (co2_params_prologue params default_params h) = length h"
    and "take (length h) (snd (co2_params_prologue params default_params h)) = h"
    and "snd (co2_params_prologue params default_params h) ! length h
         = co2_effective_params (h ! params) (map_option ((!) h) default_params)"
proof -
  show "fst (co2_params_prologue params default_params h) = length h"
    by (simp add: co2_params_prologue_def store_alloc_def Let_def split: option.splits)
  show "take (length h) (snd (co2_params_prologue params default_params h)) = h"
    by (simp add: co2_params_prologue_def store_alloc_def store_update_def Let_def
        split: option.splits)
  show "snd (co2_params_prologue params default_params h) ! length h
         = co2_effective_params (h ! params) (map_option ((!) h) default_params)"
    using assms
    by (simp add: co2_params_prologue_def store_alloc_def store_update_def Let_def
        co2_effective_params_def nth_append split: option.splits)
qed

text \<open>
  C9. For every call of \<open>calculate_co2_emissions\<close> and every coefficient key \<open>k\<close> of
  a, b, c, a2, b2, l, l2, t, trg, the value the model reads is \<open>params[k]\<close> if \<open>k\<close>
  is in \<open>params\<close>, otherwise \<open>default_params[k]\<close> if \<open>default_params\<close> is non-empty
  and holds \<open>k\<close>, otherwise 0.0; every object the store held before the call, the
  caller's \<open>params\<close> and \<open>default_params\<close> among them, is unchanged after it.
\<close>

theorem calculate_co2_emissions_params:
  assumes "params < length h" and "distinct (dict_keys (h ! params))"
    and "case default_params of
           None \<Rightarrow> True
         | Some d \<Rightarrow> d < length h \<and> distinct (dict_keys (h ! d))"
  shows "case co2_params_prologue params default_params h of
           (p, h') \<Rightarrow>
             list_all (\<lambda>k. map_of (h' ! p) k
                  = Some (effective_value_spec (h ! params)
                            (map_option ((!) h) default_params) k)) coefficient_keys
             \<and> take (length h) h' = h
             \<and> calculate_co2_emissions M inp (h ! params)
                   (map_option ((!) h) default_params) sub_values
                 = calculate_co2_emissions_body M inp (h' ! p) sub_values
             \<and> co2_effective_params (h ! params) (Some [])
                 = co2_effective_params (h ! params) None"
proof -
  have d: "case default_params of None \<Rightarrow> True | Some d \<Rightarrow> d < length h"
    using assms(3) by (simp split: option.splits)
  have d': "case map_option ((!) h) default_params of
              None \<Rightarrow> True | Some d \<Rightarrow> distinct (dict_keys d)"
    using assms(3) by (simp split: option.splits)
  obtain p h' where ph: "co2_params_prologue params default_params h = (p, h')"
    by (cases "co2_params_prologue params default_params h")
  from prologue_store [OF assms(1) d] ph have
    p: "p = length h" and t: "take (length h) h' = h"
    and e: "h' ! p = co2_effective_params (h ! params) (map_option ((!) h) default_params)"
    by simp_all
  have "list_all (\<lambda>k. map_of (h' ! p) k
          = Some (effective_value_spec (h ! params) (map_option ((!) h) default_params) k))
        coefficient_keys"
    unfolding list_all_iff e using effective_value [OF _ assms(2) d'] by blast
  then show ?thesis
    by (simp add: ph t e calculate_co2_emissions_def co2_effective_params_def)
qed

theorem calculate_co2_emissions_params_witness:
  "(case co2_params_prologue 0 (Some 1) [[(''a'', 2), (''t'', 3)], [(''t'', 5), (''trg'', 90)]] of
      (p, h') \<Rightarrow>
        map (\<lambda>k. map_of (h' ! p) k) coefficient_keys
          = [Some 2, Some 0, Some 0, Some 0, Some 0, Some 0, Some 0, Some 3, Some 90]
        \<and> take 2 h' = [[(''a'', 2), (''t'', 3)], [(''t'', 5), (''trg'', 90)]])"
  using calculate_co2_emissions_params
    [of 0 "[[(''a'', 2), (''t'', 3)], [(''t'', 5), (''trg'', 90)]]" "Some 1" 0 undefined None]
  by (auto simp add: dict_keys_def coefficient_keys_def effective_value_spec_def
      dict_contains_def numeral_2_eq_2 split: prod.splits)

subsection \<open>Initial guess\<close>

text \<open>
  C10. For each of the engine types gasoline turbo, gasoline natural aspiration and
  diesel, and every normalization temperature \<open>T\<close> and window \<open>w\<close>,
  \<open>select_initial_co2_emission_model_params_guess\<close> returns an initial guess and
  bounds whose key sets are both exactly a, b, c, a2, l, l2, t, trg; \<open>b2\<close> is in
  neither, and the emission model called with the guess reads \<open>b2\<close> as 0.
\<close>

theorem select_initial_guess_keys:
  "list_all (\<lambda>engine_type.
      case select_initial_co2_emission_model_params_guess engine_type T w of
        None \<Rightarrow> False
      | Some (g, b) \<Rightarrow>
          set (dict_keys g) = {''a'', ''b'', ''c'', ''a2'', ''l'', ''l2'', ''t'', ''trg''}
          \<and> set (dict_keys b) = {''a'', ''b'', ''c'', ''a2'', ''l'', ''l2'', ''t'', ''trg''}
          \<and> distinct (dict_keys g) \<and> distinct (dict_keys b)
          \<and> \<not> dict_contains ''b2'' g \<and> \<not> dict_contains ''b2'' b
          \<and> map_of (co2_effective_params g None) ''b2'' = Some 0)
     [''gasoline turbo'', ''gasoline natural aspiration'', ''diesel'']"
  by (simp add: select_initial_co2_emission_model_params_guess_def engine_type_params_def
      dict_update_def dict_keys_def dict_contains_def co2_effective_params_def zero_params_def
      insert_commute)

subsection \<open>Restricted bounds\<close>

lemma restrict_bounds_general:
  "list_all (\<lambda>k. dict_contains k bnds \<and> dict_contains k mul) (dict_keys guess) \<Longrightarrow>
   restrict_bounds bnds guess
     = Some (map (\<lambda>(k, v). (k, (max (fst (the (map_of bnds k))) (v * fst (the (map_of mul k))),
                                 min (snd (the (map_of bnds k))) (v * snd (the (map_of mul k))))))
              guess)"
proof (induction guess)
  case Nil
  then show ?case by simp
next
  case (Cons x guess)
  obtain k v where x: "x = (k, v)" by (cases x)
  from Cons.prems obtain b0 b1 m0 m1 where
    b: "map_of bnds k = Some (b0, b1)" and m: "map_of mul k = Some (m0, m1)"
    by (auto simp add: x dict_keys_def dict_contains_def)
  from Cons.prems have
    "list_all (\<lambda>k. dict_contains k bnds \<and> dict_contains k mul) (dict_keys guess)"
    by (simp add: dict_keys_def)
  from Cons.IH [OF this] show ?case
    by (simp add: x limits_def b m)
qed

lemma restrict_bounds_l2:
  "restrict_bounds [(''l2'', (-0.01, 0.0))] [(''l2'', -0.003)] = Some [(''l2'', (-0.0036, 0.0))]"
  by (simp add: limits_def mul_def)

lemma restrict_bounds_b2:
  "restrict_bounds [(''b2'', (-1, 1))] [(''b2'', 0)] = None"
  by (simp add: limits_def mul_def)

lemma mul_registry:
  "list_all (\<lambda>k. map_of mul k = map_of CO2_PARAMS_LIMIT_MULTIPLIERS k)
     [''trg'', ''a'', ''b'', ''c'', ''a2'', ''l'', ''l2'']"
  by (simp add: mul_def CO2_PARAMS_LIMIT_MULTIPLIERS_def)

text \<open>
  C4. When every key of the initial guess has bounds and a pair of multipliers in the
  table (else a subscript raises \<open>KeyError\<close>), \<open>restrict_bounds\<close> returns, for every
  key \<open>k\<close> of the initial guess with value \<open>v\<close> and bounds \<open>(min_k, max_k)\<close>, the
  interval \<open>(max(min_k, v*low_mult_k), min(max_k, v*high_mult_k))\<close>; for \<open>l2\<close> with value
  -0.003 and bounds (-0.01, 0.0) the restricted lower bound is
  \<open>max(-0.01, -0.003*1.2) = -0.0036\<close> and the upper one \<open>min(0.0, -0.003*0.0) = 0.0\<close>.
  The function's table and the registry's agree on trg, a, b, c, a2, l and l2.
\<close>

theorem restrict_bounds_intervals:
  assumes "list_all (\<lambda>k. dict_contains k bnds \<and> dict_contains k mul) (dict_keys guess)"
  shows "restrict_bounds bnds guess
           = Some (map (\<lambda>(k, v).
                (k, (max (fst (the (map_of bnds k))) (v * fst (the (map_of mul k))),
                     min (snd (the (map_of bnds k))) (v * snd (the (map_of mul k))))))
              guess)
         \<and> restrict_bounds [(''l2'', (-0.01, 0.0))] [(''l2'', -0.003)]
             = Some [(''l2'', (max (-0.01) (-0.003 * 1.2), min 0.0 (-0.003 * 0.0)))]
         \<and> max (-0.01) (-0.003 * 1.2) = (-0.0036 :: real)
         \<and> min 0.0 (-0.003 * 0.0) = (0.0 :: real)
         \<and> list_all (\<lambda>k. map_of mul k = map_of CO2_PARAMS_LIMIT_MULTIPLIERS k)
              [''trg'', ''a'', ''b'', ''c'', ''a2'', ''l'', ''l2'']"
  using restrict_bounds_general [OF assms] restrict_bounds_l2 mul_registry
  by simp

theorem restrict_bounds_intervals_witness:
  "restrict_bounds [(''a'', (0.4, 0.55)), (''l2'', (-0.01, 0.0))] [(''l2'', -0.003), (''a'', 0.5)]
     = Some [(''l2'', (-0.0036, 0.0)), (''a'', (0.4, 0.55))]"
proof -
  have h: "list_all (\<lambda>k. dict_contains k [(''a'', (0.4 :: real, 0.55 :: real)),
                (''l2'', (-0.01, 0.0))] \<and> dict_contains k mul)
             (dict_keys [(''l2'', -0.003 :: real), (''a'', 0.5)])"
    by (simp add: dict_contains_iff dict_keys_def mul_def)
  have m: "map_of mul ''l2'' = Some (1.2, 0.0)" "map_of mul ''a'' = Some (0.8, 1.2)"
    by (simp_all add: mul_def)
  from restrict_bounds_intervals [OF h] show ?thesis
    by (simp add: m)
qed

subsection \<open>The hot-phase stage of \<open>calibrate_co2_params\<close>\<close>

lemma map_of_fold_update_notin:
  "k \<notin> fst ` set e \<Longrightarrow> map_of (fold (\<lambda>(k, v). AList.update k v) e d) k = map_of d k"
proof (induction e arbitrary: d)
  case Nil
  then show ?case by simp
next
  case (Cons x e)
  obtain k' v' where x: "x = (k', v')" by (cases x)
  from Cons.prems have "k \<noteq> k'" and "k \<notin> fst ` set e"
    by (auto simp add: x)
  then show ?case
    by (simp add: x Cons.IH update_conv')
qed

lemma map_of_dict_update_notin:
  "k \<notin> set (dict_keys e) \<Longrightarrow> map_of (dict_update d e) k = map_of d k"
  by (simp add: dict_update_def dict_keys_def map_of_fold_update_notin)

lemma update_params_keys:
  "set (dict_keys (update_params param_keys [] x)) \<subseteq> set param_keys"
proof -
  have "set (dict_keys (update_params param_keys [] x)) = fst ` set (zip param_keys x)"
    unfolding update_params_def keys_dict_update by (simp add: dict_keys_def)
  then show ?thesis
    by (auto dest: set_zip_leftD)
qed

lemma effective_params_unfitted:
  assumes "k \<notin> set param_keys"
  shows "map_of (co2_effective_params (update_params param_keys [] x) (Some [])) k
         = map_of zero_params k"
proof -
  have "k \<notin> set (dict_keys (update_params param_keys [] x))"
    using assms update_params_keys by blast
  then show ?thesis
    by (simp add: co2_effective_params_def map_of_dict_update_notin)
qed

lemma calibrate_co2_params_single:
  "calibrate_co2_params opt EPS (One temps)
       (One (define_co2_error_function_on_emissions model measured)) (One phases) bounds guess
   = do {
       trg \<leftarrow> map_of guess ''trg'';
       let hot = map (\<lambda>T. \<not> T < trg) temps;
       p \<leftarrow> calibrate_model_params opt EPS (filter (\<lambda>(k, v). k \<in> set hot_p) bounds)
              (One (\<lambda>params. do {
                      y \<leftarrow> model params (Some []) (Some hot);
                      mean_squared_error (mask_select measured hot) y
                    }))
              (Some (filter (\<lambda>(k, v). k \<in> set hot_p) guess));
       p \<leftarrow> (if list_ex (\<lambda>T. T < trg) temps
              then do {
                q \<leftarrow> calibrate opt EPS
                       (err_f (One phases)
                          (One (define_co2_error_function_on_emissions model measured)))
                       bounds guess cold_p (Some p) (One (map (\<lambda>T. T < trg) temps));
                Some (dict_update p q)
              }
              else do {
                t \<leftarrow> map_of guess ''t'';
                Some (AList.update ''t'' t (AList.update ''trg'' trg p))
              });
       bounds' \<leftarrow> restrict_bounds bounds p;
       calibrate_model_params opt EPS bounds' (One phases) (Some p)
     }"
proof -
  have h: "calibrate opt EPS
             (err_f (One phases) (One (define_co2_error_function_on_emissions model measured)))
             bounds guess hot_p (Some []) (One (map (\<lambda>T. \<not> T < trg) temps))
           = calibrate_model_params opt EPS (filter (\<lambda>(k, v). k \<in> set hot_p) bounds)
              (One (\<lambda>params. do {
                      y \<leftarrow> model params (Some []) (Some (map (\<lambda>T. \<not> T < trg) temps));
                      mean_squared_error (mask_select measured (map (\<lambda>T. \<not> T < trg) temps)) y
                    }))
              (Some (filter (\<lambda>(k, v). k \<in> set hot_p) guess))" for trg
    by (simp add: calibrate_def err_f_def define_co2_error_function_on_emissions_def Let_def)
  have a: "mask_any (One (map (\<lambda>T. T < trg) temps)) = list_ex (\<lambda>T. T < trg) temps" for trg
    by (simp add: mask_any_def list_ex_iff)
  show ?thesis
    unfolding calibrate_co2_params_def Let_def cold_samples_def logical_not_def
      one_or_many.case
    by (simp add: h a comp_def)
qed

lemma err_f_many:
  "err_f (Many phs)
     (Many (map (\<lambda>(model, measured). define_co2_error_function_on_emissions model measured)
              cycles))
     params default_params (Many masks)
   = sum_errors (map (\<lambda>((model, measured), mask). do {
                        y \<leftarrow> model params default_params (Some mask);
                        mean_squared_error (mask_select measured mask) y
                      })
                  (filter (\<lambda>(cycle, mask). list_ex id mask) (zip cycles masks)))"
proof -
  have "map (\<lambda>(f, b). f params default_params (Some b))
          (filter (\<lambda>(f, b). list_ex id b)
             (zip (map (\<lambda>(model, measured).
                      define_co2_error_function_on_emissions model measured) cycles) masks))
        = map (\<lambda>((model, measured), mask). do {
                        y \<leftarrow> model params default_params (Some mask);
                        mean_squared_error (mask_select measured mask) y
                      })
            (filter (\<lambda>(cycle, mask). list_ex id mask) (zip cycles masks))"
  proof (induction cycles arbitrary: masks)
    case Nil
    then show ?case by simp
  next
    case (Cons c cycles)
    show ?case
    proof (cases masks)
      case Nil
      then show ?thesis by simp
    next
      case (Cons m ms)
      obtain model measured where c: "c = (model, measured)" by (cases c)
      have hd: "define_co2_error_function_on_emissions model measured params default_params
                  (Some m)
                = do {
                    y \<leftarrow> model params default_params (Some m);
                    mean_squared_error (mask_select measured m) y
                  }"
        by (simp add: define_co2_error_function_on_emissions_def Let_def)
      show ?thesis
        unfolding Cons c using Cons.IH [of ms] by (simp add: hd)
    qed
  qed
  then show ?thesis
    by (simp add: err_f_def)
qed

lemma calibrate_co2_params_many:
  "calibrate_co2_params opt EPS (Many tss)
       (Many (map (\<lambda>(model, measured). define_co2_error_function_on_emissions model measured)
                cycles))
       (Many phs) bounds guess
   = do {
       trg \<leftarrow> map_of guess ''trg'';
       let hots = map (map (\<lambda>T. \<not> T < trg)) tss;
       p \<leftarrow> calibrate_model_params opt EPS (filter (\<lambda>(k, v). k \<in> set hot_p) bounds)
              (One (\<lambda>params.
                 sum_errors (map (\<lambda>((model, measured), hot). do {
                                    y \<leftarrow> model params (Some []) (Some hot);
                                    mean_squared_error (mask_select measured hot) y
                                  })
                              (filter (\<lambda>(cycle, hot). list_ex id hot) (zip cycles hots)))))
              (Some (filter (\<lambda>(k, v). k \<in> set hot_p) guess));
       p \<leftarrow> (if list_ex (list_ex (\<lambda>T. T < trg)) tss
              then do {
                q \<leftarrow> calibrate opt EPS
                       (err_f (Many phs)
                          (Many (map (\<lambda>(model, measured).
                                   define_co2_error_function_on_emissions model measured)
                                cycles)))
                       bounds guess cold_p (Some p) (Many (map (map (\<lambda>T. T < trg)) tss));
                Some (dict_update p q)
              }
              else do {
                t \<leftarrow> map_of guess ''t'';
                Some (AList.update ''t'' t (AList.update ''trg'' trg p))
              });
       bounds' \<leftarrow> restrict_bounds bounds p;
       calibrate_model_params opt EPS bounds' (Many phs) (Some p)
     }"
proof -
  have a: "mask_any (Many (map (map (\<lambda>T. T < trg)) tss))
           = list_ex (list_ex (\<lambda>T. T < trg)) tss" for trg
    by (simp add: mask_any_def list_ex_iff)
  show ?thesis
    unfolding calibrate_co2_params_def Let_def cold_samples_def logical_not_def
      one_or_many.case
    by (simp add: a comp_def calibrate_def [of _ _ _ _ _ hot_p] err_f_many Let_def)
qed

lemma example_body_zero:
  "calculate_co2_emissions 10 (example_inputs \<theta>) example_x0 (Some []) (Some [True]) = Some [4]"
  by (simp add: calculate_co2_emissions_def calculate_co2_emissions_body_def example_inputs_def
      example_x0_def co2_effective_params_def dict_update_def zero_params_def mask_select_def
      calculate_normalized_engine_coolant_temperatures_def
      calculate_fuel_mean_effective_pressure_def calculate_p0_def np_power_def Let_def)

lemma example_body_guess:
  "calculate_co2_emissions 10 (example_inputs 50) example_x0 (Some example_guess) (Some [True])
     = Some [1332 / 323]"
  by (simp add: calculate_co2_emissions_def calculate_co2_emissions_body_def example_inputs_def
      example_x0_def example_guess_def co2_effective_params_def dict_update_def zero_params_def
      mask_select_def calculate_normalized_engine_coolant_temperatures_def
      calculate_fuel_mean_effective_pressure_def calculate_p0_def np_power_def Let_def
      powr_neg_one)

lemma example_hot_stage:
  "calibrate_model_params example_optimizer EPS (filter (\<lambda>(k, v). k \<in> set hot_p) example_bounds)
     (One (\<lambda>params. do {
             y \<leftarrow> calculate_co2_emissions 10 (example_inputs \<theta>) params (Some []) (Some [True]);
             mean_squared_error (mask_select [3] [True]) y
           }))
     (Some (filter (\<lambda>(k, v). k \<in> set hot_p) example_guess))
   = Some [(''a'', 2), (''a2'', 1), (''b'', 1), (''c'', 1), (''l'', 0), (''l2'', 1)]"
proof -
  have k: "sort_key fst (filter (\<lambda>(k, v). k \<in> set hot_p) example_bounds)
           = [(''a'', (-10, 10)), (''a2'', (-10, 10)), (''b'', (-10, 10)), (''c'', (-10, 10)),
              (''l'', (-10, 10)), (''l2'', (-10, 10))]"
    by (simp add: hot_p_def example_bounds_def)
  have g: "filter (\<lambda>(k, v). k \<in> set hot_p) example_guess
           = [(''a'', 1), (''b'', 0), (''c'', 0), (''a2'', 0), (''l'', -1), (''l2'', 0)]"
    by (simp add: hot_p_def example_guess_def)
  have u: "update_params [''a'', ''a2'', ''b'', ''c'', ''l'', ''l2''] [] [1, 0, 0, 0, -1, 0]
           = example_x0"
    by (simp add: update_params_def dict_update_def example_x0_def)
  have m: "mean_squared_error (mask_select [3] [True]) [4] = Some 1"
    by (simp add: mean_squared_error_def mask_select_def)
  have u2: "update_params [''a'', ''a2'', ''b'', ''c'', ''l'', ''l2''] [] [2, 1, 1, 1, 0, 1]
           = [(''a'', 2), (''a2'', 1), (''b'', 1), (''c'', 1), (''l'', 0), (''l2'', 1)]"
    by (simp add: update_params_def dict_update_def)
  show ?thesis
    unfolding calibrate_model_params_def k g
    by (simp add: Let_def error_func_def u example_body_zero m example_optimizer_def u2)
qed

lemma example_final_stage:
  "do {
     bounds' \<leftarrow> restrict_bounds example_bounds
        [(''a'', 2), (''a2'', 1), (''b'', 1), (''c'', 1), (''l'', 0), (''l2'', 1),
         (''trg'', 90), (''t'', 1)];
     calibrate_model_params example_optimizer EPS bounds' (One (\<lambda>p. Some 0))
       (Some [(''a'', 2), (''a2'', 1), (''b'', 1), (''c'', 1), (''l'', 0), (''l2'', 1),
              (''trg'', 90), (''t'', 1)])
   } = Some [(''a'', 2), (''a2'', 1), (''b'', 1), (''c'', 1), (''l'', 0), (''l2'', 1),
             (''t'', 1), (''trg'', 90)]"
  by (simp add: limits_def mul_def example_bounds_def calibrate_model_params_def Let_def
      error_func_def example_optimizer_def update_params_def dict_update_def)

lemma example_run:
  "calibrate_co2_params example_optimizer EPS (One [95])
     (One (define_co2_error_function_on_emissions
             (calculate_co2_emissions 10 (example_inputs \<theta>)) [3]))
     (One (\<lambda>p. Some 0)) example_bounds example_guess
   = Some [(''a'', 2), (''a2'', 1), (''b'', 1), (''c'', 1), (''l'', 0), (''l2'', 1),
           (''t'', 1), (''trg'', 90)]"
proof -
  have g: "map_of example_guess ''trg'' = Some 90" "map_of example_guess ''t'' = Some 1"
    by (simp_all add: example_guess_def)
  show ?thesis
    unfolding calibrate_co2_params_single
    using example_final_stage [of EPS]
    by (simp add: g example_hot_stage)
qed

text \<open>
  C1, as amended. In both call forms of \<open>calibrate_co2_params\<close> (one cycle, or a tuple
  of cycles), whatever the optimizer and whatever the emissions models, the hot-phase stage
  calibrates the bounds and guesses of a2, a, b, c, l, l2 only; the hot samples are those
  whose coolant temperature is not below the initial guess for \<open>trg\<close>; and the
  objective is the mean squared error between the measured emissions of the hot samples and
  the model called with the parameters of the current vector, an empty
  \<open>default_params\<close> and the hot mask (summed over the cycles that have a hot sample).
  For the model \<open>calculate_co2_emissions\<close> of the source this call reads the
  dictionary \<open>p\<close> built from the vector alone, in which \<open>t\<close> and \<open>trg\<close> are 0.0,
  the model's own defaults, whatever their initial guess.
\<close>

theorem hot_stage_objective:
  "calibrate_co2_params opt EPS (One temps)
       (One (define_co2_error_function_on_emissions model measured)) (One phases) bounds guess
   = do {
       trg \<leftarrow> map_of guess ''trg'';
       let hot = map (\<lambda>T. \<not> T < trg) temps;
       p \<leftarrow> calibrate_model_params opt EPS (filter (\<lambda>(k, v). k \<in> set hot_p) bounds)
              (One (\<lambda>params. do {
                      y \<leftarrow> model params (Some []) (Some hot);
                      mean_squared_error (mask_select measured hot) y
                    }))
              (Some (filter (\<lambda>(k, v). k \<in> set hot_p) guess));
       p \<leftarrow> (if list_ex (\<lambda>T. T < trg) temps
              then do {
                q \<leftarrow> calibrate opt EPS
                       (err_f (One phases)
                          (One (define_co2_error_function_on_emissions model measured)))
                       bounds guess cold_p (Some p) (One (map (\<lambda>T. T < trg) temps));
                Some (dict_update p q)
              }
              else do {
                t \<leftarrow> map_of guess ''t'';
                Some (AList.update ''t'' t (AList.update ''trg'' trg p))
              });
       bounds' \<leftarrow> restrict_bounds bounds p;
       calibrate_model_params opt EPS bounds' (One phases) (Some p)
     }
   \<and> calibrate_co2_params opt EPS (Many tss)
       (Many (map (\<lambda>(model, measured). define_co2_error_function_on_emissions model measured)
                cycles))
       (Many phs) bounds guess
     = do {
         trg \<leftarrow> map_of guess ''trg'';
         let hots = map (map (\<lambda>T. \<not> T < trg)) tss;
         p \<leftarrow> calibrate_model_params opt EPS (filter (\<lambda>(k, v). k \<in> set hot_p) bounds)
                (One (\<lambda>params.
                   sum_errors (map (\<lambda>((model, measured), hot). do {
                                      y \<leftarrow> model params (Some []) (Some hot);
                                      mean_squared_error (mask_select measured hot) y
                                    })
                                (filter (\<lambda>(cycle, hot). list_ex id hot) (zip cycles hots)))))
                (Some (filter (\<lambda>(k, v). k \<in> set hot_p) guess));
         p \<leftarrow> (if list_ex (list_ex (\<lambda>T. T < trg)) tss
                then do {
                  q \<leftarrow> calibrate opt EPS
                         (err_f (Many phs)
                            (Many (map (\<lambda>(model, measured).
                                     define_co2_error_function_on_emissions model measured)
                                  cycles)))
                         bounds guess cold_p (Some p) (Many (map (map (\<lambda>T. T < trg)) tss));
                  Some (dict_update p q)
                }
                else do {
                  t \<leftarrow> map_of guess ''t'';
                  Some (AList.update ''t'' t (AList.update ''trg'' trg p))
                });
         bounds' \<leftarrow> restrict_bounds bounds p;
         calibrate_model_params opt EPS bounds' (Many phs) (Some p)
       }
   \<and> (\<forall>x hot.
         let param_keys = map fst (sort_key fst (filter (\<lambda>(k, v). k \<in> set hot_p) bounds));
             params = update_params param_keys [] x;
             p = dict_update zero_params params
         in error_func (\<lambda>params. do {
                          y \<leftarrow> calculate_co2_emissions M inp params (Some []) (Some hot);
                          mean_squared_error (mask_select measured hot) y
                        }) param_keys x
              = do {
                  y \<leftarrow> calculate_co2_emissions_body M inp p (Some hot);
                  mean_squared_error (mask_select measured hot) y
                }
            \<and> co2_effective_params params (Some []) = p
            \<and> map_of p ''t'' = Some 0 \<and> map_of p ''trg'' = Some 0)"
proof -
  have k: "''t'' \<notin> set (map fst (sort_key fst (filter (\<lambda>(k, v). k \<in> set hot_p) bounds)))"
    "''trg'' \<notin> set (map fst (sort_key fst (filter (\<lambda>(k, v). k \<in> set hot_p) bounds)))"
    by (auto simp add: hot_p_def)
  have z: "map_of zero_params ''t'' = Some 0" "map_of zero_params ''trg'' = Some 0"
    by (simp_all add: zero_params_def)
  have e: "co2_effective_params params (Some []) = dict_update zero_params params"
    for params
    by (simp add: co2_effective_params_def)
  have c: "\<forall>x hot.
         let param_keys = map fst (sort_key fst (filter (\<lambda>(k, v). k \<in> set hot_p) bounds));
             params = update_params param_keys [] x;
             p = dict_update zero_params params
         in error_func (\<lambda>params. do {
                          y \<leftarrow> calculate_co2_emissions M inp params (Some []) (Some hot);
                          mean_squared_error (mask_select measured hot) y
                        }) param_keys x
              = do {
                  y \<leftarrow> calculate_co2_emissions_body M inp p (Some hot);
                  mean_squared_error (mask_select measured hot) y
                }
            \<and> co2_effective_params params (Some []) = p
            \<and> map_of p ''t'' = Some 0 \<and> map_of p ''trg'' = Some 0"
    unfolding Let_def
    using effective_params_unfitted [OF k(1)] effective_params_unfitted [OF k(2)]
    by (simp add: e z error_func_def calculate_co2_emissions_def del: set_map)
  from calibrate_co2_params_single [of opt EPS temps model measured phases bounds guess]
    calibrate_co2_params_many [of opt EPS tss cycles phs bounds guess] c
  show ?thesis
    by (intro conjI)
qed

theorem hot_stage_objective_witness:
  "calibrate_co2_params example_optimizer (1 / 2 ^ 52) (One [95])
     (One (define_co2_error_function_on_emissions
             (calculate_co2_emissions 10 (example_inputs 95)) [3]))
     (One (\<lambda>p. Some 0)) example_bounds example_guess
   = Some [(''a'', 2), (''a2'', 1), (''b'', 1), (''c'', 1), (''l'', 0), (''l2'', 1),
           (''t'', 1), (''trg'', 90)]
   \<and> error_func (\<lambda>params. do {
          y \<leftarrow> calculate_co2_emissions 10 (example_inputs 95) params (Some []) (Some [True]);
          mean_squared_error (mask_select [3] [True]) y
        }) [''a'', ''a2'', ''b'', ''c'', ''l'', ''l2''] [1, 0, 0, 0, -1, 0]
     = Some 1"
proof -
  note t = hot_stage_objective [where opt = example_optimizer and EPS = "1 / 2 ^ 52"
      and temps = "[95]" and model = "calculate_co2_emissions 10 (example_inputs 95)"
      and measured = "[3]" and phases = "\<lambda>p. Some 0" and bounds = example_bounds
      and guess = example_guess and M = 10 and inp = "example_inputs 95"]
  from t have link: "calibrate_co2_params example_optimizer (1 / 2 ^ 52) (One [95])
       (One (define_co2_error_function_on_emissions
               (calculate_co2_emissions 10 (example_inputs 95)) [3]))
       (One (\<lambda>p. Some 0)) example_bounds example_guess
   = do {
       trg \<leftarrow> map_of example_guess ''trg'';
       let hot = map (\<lambda>T. \<not> T < trg) [95];
       p \<leftarrow> calibrate_model_params example_optimizer (1 / 2 ^ 52)
              (filter (\<lambda>(k, v). k \<in> set hot_p) example_bounds)
              (One (\<lambda>params. do {
                      y \<leftarrow> calculate_co2_emissions 10 (example_inputs 95) params (Some [])
                             (Some hot);
                      mean_squared_error (mask_select [3] hot) y
                    }))
              (Some (filter (\<lambda>(k, v). k \<in> set hot_p) example_guess));
       p \<leftarrow> (if list_ex (\<lambda>T. T < trg) [95]
              then do {
                q \<leftarrow> calibrate example_optimizer (1 / 2 ^ 52)
                       (err_f (One (\<lambda>p. Some 0))
                          (One (define_co2_error_function_on_emissions
                                  (calculate_co2_emissions 10 (example_inputs 95)) [3])))
                       example_bounds example_guess cold_p (Some p)
                       (One (map (\<lambda>T. T < trg) [95]));
                Some (dict_update p q)
              }
              else do {
                t \<leftarrow> map_of example_guess ''t'';
                Some (AList.update ''t'' t (AList.update ''trg'' trg p))
              });
       bounds' \<leftarrow> restrict_bounds example_bounds p;
       calibrate_model_params example_optimizer (1 / 2 ^ 52) bounds' (One (\<lambda>p. Some 0)) (Some p)
     }"
    by (rule conjunct1)
  have g: "map_of example_guess ''trg'' = Some 90" "map_of example_guess ''t'' = Some 1"
    by (simp_all add: example_guess_def)
  have r: "calibrate_co2_params example_optimizer (1 / 2 ^ 52) (One [95])
     (One (define_co2_error_function_on_emissions
             (calculate_co2_emissions 10 (example_inputs 95)) [3]))
     (One (\<lambda>p. Some 0)) example_bounds example_guess
   = Some [(''a'', 2), (''a2'', 1), (''b'', 1), (''c'', 1), (''l'', 0), (''l2'', 1),
           (''t'', 1), (''trg'', 90)]"
    unfolding link
    using example_final_stage [of "1 / 2 ^ 52"]
    by (simp add: g example_hot_stage)
  have u: "update_params [''a'', ''a2'', ''b'', ''c'', ''l'', ''l2''] [] [1, 0, 0, 0, -1, 0]
           = example_x0"
    by (simp add: update_params_def dict_update_def example_x0_def)
  have m: "mean_squared_error (mask_select [3] [True]) [4] = Some 1"
    by (simp add: mean_squared_error_def mask_select_def)
  have o: "error_func (\<lambda>params. do {
          y \<leftarrow> calculate_co2_emissions 10 (example_inputs 95) params (Some []) (Some [True]);
          mean_squared_error (mask_select [3] [True]) y
        }) [''a'', ''a2'', ''b'', ''c'', ''l'', ''l2''] [1, 0, 0, 0, -1, 0]
     = Some 1"
    by (simp add: error_func_def u example_body_zero m)
  from r o show ?thesis
    by (rule conjI)
qed

text \<open>
  For a hot sample the temperature factor \<open>n_temp^(-t)\<close> is 1 both with \<open>t\<close> and
  \<open>trg\<close> at an initial guess above -273 and with both at 0.
\<close>

lemma hot_temperature_factor:
  assumes "0 < trg + 273" and "\<not> \<theta> < trg"
  shows "map (\<lambda>n. np_power n (- t)) (calculate_normalized_engine_coolant_temperatures [\<theta>] trg)
         = [1]"
    and "map (\<lambda>n. np_power n (- 0)) (calculate_normalized_engine_coolant_temperatures [\<theta>] 0)
         = [1]"
proof -
  from assms have "1 \<le> (\<theta> + 273) / (trg + 273)"
    by (simp add: field_simps)
  then show "map (\<lambda>n. np_power n (- t))
      (calculate_normalized_engine_coolant_temperatures [\<theta>] trg) = [1]"
    by (auto simp add: calculate_normalized_engine_coolant_temperatures_def np_power_def)
  show "map (\<lambda>n. np_power n (- 0)) (calculate_normalized_engine_coolant_temperatures [\<theta>] 0)
      = [1]"
    by (simp add: np_power_def calculate_normalized_engine_coolant_temperatures_def)
qed

lemma example_hot_stage_guess:
  "calibrate_model_params example_optimizer EPS (filter (\<lambda>(k, v). k \<in> set hot_p) example_bounds)
     (One (\<lambda>params. do {
             y \<leftarrow> calculate_co2_emissions 10 (example_inputs 50) params (Some example_guess)
                    (Some [True]);
             mean_squared_error (mask_select [3] [True]) y
           }))
     (Some (filter (\<lambda>(k, v). k \<in> set hot_p) example_guess))
   = Some [(''a'', 1 + (363 / 323)\<^sup>2), (''a2'', (363 / 323)\<^sup>2), (''b'', (363 / 323)\<^sup>2),
           (''c'', (363 / 323)\<^sup>2), (''l'', (363 / 323)\<^sup>2 - 1), (''l2'', (363 / 323)\<^sup>2)]"
proof -
  have k: "sort_key fst (filter (\<lambda>(k, v). k \<in> set hot_p) example_bounds)
           = [(''a'', (-10, 10)), (''a2'', (-10, 10)), (''b'', (-10, 10)), (''c'', (-10, 10)),
              (''l'', (-10, 10)), (''l2'', (-10, 10))]"
    by (simp add: hot_p_def example_bounds_def)
  have g: "filter (\<lambda>(k, v). k \<in> set hot_p) example_guess
           = [(''a'', 1), (''b'', 0), (''c'', 0), (''a2'', 0), (''l'', -1), (''l2'', 0)]"
    by (simp add: hot_p_def example_guess_def)
  have u: "update_params [''a'', ''a2'', ''b'', ''c'', ''l'', ''l2''] [] [1, 0, 0, 0, -1, 0]
           = example_x0"
    by (simp add: update_params_def dict_update_def example_x0_def)
  have m: "mean_squared_error (mask_select [3] [True]) [1332 / 323] = Some ((363 / 323)\<^sup>2)"
    by (simp add: mean_squared_error_def mask_select_def)
  have u2: "update_params [''a'', ''a2'', ''b'', ''c'', ''l'', ''l2''] [] [a, a2, b, c, l, l2]
           = [(''a'', a), (''a2'', a2), (''b'', b), (''c'', c), (''l'', l), (''l2'', l2)]"
    for a a2 b c l l2 :: real
    by (simp add: update_params_def dict_update_def)
  show ?thesis
    unfolding calibrate_model_params_def k g
    by (simp add: Let_def error_func_def example_body_guess [unfolded example_x0_def] m
        example_optimizer_def u2)
qed

text \<open>
  The claim as stated fails. The initial guess has \<open>t = 1\<close> and \<open>trg = 90\<close>; the one
  sample is hot (95 in the array given to \<open>calibrate_co2_params\<close>) and has the
  coolant temperature 50 in the model's own array, so that \<open>t\<close> and \<open>trg\<close> at the
  initial guess give a temperature factor other than 1. The run moves the six fitted
  coefficients by 1, the objective at the initial vector with \<open>t = trg = 0\<close>; with
  \<open>t\<close> and \<open>trg\<close> at the initial guess the objective there is \<open>(363/323)^2\<close> and
  the stage would return other values.
\<close>

theorem hot_stage_counterexample:
  "calibrate_co2_params example_optimizer (1 / 2 ^ 52) (One [95])
     (One (define_co2_error_function_on_emissions
             (calculate_co2_emissions 10 (example_inputs 50)) [3]))
     (One (\<lambda>p. Some 0)) example_bounds example_guess
   = Some [(''a'', 2), (''a2'', 1), (''b'', 1), (''c'', 1), (''l'', 0), (''l2'', 1),
           (''t'', 1), (''trg'', 90)]
   \<and> define_co2_error_function_on_emissions (calculate_co2_emissions 10 (example_inputs 50)) [3]
       example_x0 (Some []) (Some [True]) = Some 1
   \<and> define_co2_error_function_on_emissions (calculate_co2_emissions 10 (example_inputs 50)) [3]
       example_x0 (Some example_guess) (Some [True]) = Some ((363 / 323)\<^sup>2)
   \<and> calibrate_model_params example_optimizer (1 / 2 ^ 52)
       (filter (\<lambda>(k, v). k \<in> set hot_p) example_bounds)
       (One (\<lambda>params. define_co2_error_function_on_emissions
                         (calculate_co2_emissions 10 (example_inputs 50)) [3]
                         params (Some example_guess) (Some [True])))
       (Some (filter (\<lambda>(k, v). k \<in> set hot_p) example_guess))
     \<noteq> Some [(''a'', 2), (''a2'', 1), (''b'', 1), (''c'', 1), (''l'', 0), (''l2'', 1)]
   \<and> map_of (co2_effective_params example_x0 (Some [])) ''t'' = Some 0
   \<and> map_of example_guess ''t'' = Some 1
   \<and> map_of (co2_effective_params example_x0 (Some [])) ''trg'' = Some 0
   \<and> map_of example_guess ''trg'' = Some 90"
proof -
  have m0: "mean_squared_error (mask_select [3] [True]) [4] = Some 1"
    by (simp add: mean_squared_error_def mask_select_def)
  have m1: "mean_squared_error (mask_select [3] [True]) [1332 / 323] = Some ((363 / 323)\<^sup>2)"
    by (simp add: mean_squared_error_def mask_select_def)
  have d: "(\<lambda>params. define_co2_error_function_on_emissions
                         (calculate_co2_emissions 10 (example_inputs 50)) [3]
                         params (Some example_guess) (Some [True]))
           = (\<lambda>params. do {
                y \<leftarrow> calculate_co2_emissions 10 (example_inputs 50) params (Some example_guess)
                       (Some [True]);
                mean_squared_error (mask_select [3] [True]) y
              })"
    by (simp add: define_co2_error_function_on_emissions_def Let_def)
  have ne: "(363 / 323 :: real)\<^sup>2 \<noteq> 1"
    by (simp add: power2_eq_square)
  have e0: "define_co2_error_function_on_emissions
              (calculate_co2_emissions 10 (example_inputs 50)) [3]
              example_x0 (Some []) (Some [True]) = Some 1"
    by (simp add: define_co2_error_function_on_emissions_def Let_def example_body_zero m0)
  have e1: "define_co2_error_function_on_emissions
              (calculate_co2_emissions 10 (example_inputs 50)) [3]
              example_x0 (Some example_guess) (Some [True]) = Some ((363 / 323)\<^sup>2)"
    by (simp add: define_co2_error_function_on_emissions_def Let_def example_body_guess m1)
  have h: "calibrate_model_params example_optimizer (1 / 2 ^ 52)
       (filter (\<lambda>(k, v). k \<in> set hot_p) example_bounds)
       (One (\<lambda>params. define_co2_error_function_on_emissions
                         (calculate_co2_emissions 10 (example_inputs 50)) [3]
                         params (Some example_guess) (Some [True])))
       (Some (filter (\<lambda>(k, v). k \<in> set hot_p) example_guess))
     \<noteq> Some [(''a'', 2), (''a2'', 1), (''b'', 1), (''c'', 1), (''l'', 0), (''l2'', 1)]"
    unfolding d example_hot_stage_guess using ne by simp
  have p: "map_of (co2_effective_params example_x0 (Some [])) ''t'' = Some 0"
    "map_of example_guess ''t'' = Some 1"
    "map_of (co2_effective_params example_x0 (Some [])) ''trg'' = Some 0"
    "map_of example_guess ''trg'' = Some 90"
    by (simp_all add: co2_effective_params_def example_x0_def example_guess_def zero_params_def
        dict_update_def)
  from example_run [of "1 / 2 ^ 52" 50] e0 e1 h p show ?thesis
    by blast
qed

subsection \<open>Candidates without a comparable record\<close>

lemma heappush_empty: "heappush [] item = Some [item]"
  by (simp add: heappush_def)

lemma siftdown_root:
  "0 < pos \<Longrightarrow> entry_less newitem (h ! 0) = Some False \<Longrightarrow>
   siftdown h 0 pos newitem = Some h' \<Longrightarrow> h' ! 0 = h ! 0"
proof (induction h "0 :: nat" pos newitem arbitrary: h' rule: siftdown.induct)
  case (1 heap pos newitem)
  let ?pp = "(pos - 1) div 2"
  show ?case
  proof (cases "entry_less newitem (heap ! ?pp)")
    case None
    with "1.prems" show ?thesis
      by (simp add: Let_def)
  next
    case (Some b)
    show ?thesis
    proof (cases b)
      case True
      with Some "1.prems" have pp: "0 < ?pp"
        by (cases "?pp = 0") auto
      from True Some "1.prems" have
        s: "siftdown (heap[pos := heap ! ?pp]) 0 ?pp newitem = Some h'"
        by (simp add: Let_def)
      from "1.prems" have r: "(heap[pos := heap ! ?pp]) ! 0 = heap ! 0"
        by simp
      from True have bt: "b = True" by simp
      from r "1.prems"(2) have
        l: "entry_less newitem (heap[pos := heap ! ?pp] ! 0) = Some False"
        by simp
      from "1.hyps" [OF "1.prems"(1) refl refl Some bt pp l s] r
      show ?thesis by simp
    next
      case False
      with Some "1.prems" show ?thesis
        by (auto simp add: Let_def)
    qed
  qed
qed

lemma siftdown_length:
  "siftdown h startpos pos newitem = Some h' \<Longrightarrow> length h' = length h"
proof (induction h startpos pos newitem arbitrary: h' rule: siftdown.induct)
  case (1 heap startpos pos newitem)
  show ?case
  proof (cases "startpos < pos")
    case True
    let ?pp = "(pos - 1) div 2"
    show ?thesis
    proof (cases "entry_less newitem (heap ! ?pp)")
      case None
      with True "1.prems" show ?thesis
        by (simp add: Let_def)
    next
      case (Some b)
      show ?thesis
      proof (cases b)
        case True
        then have bt: "b = True" by simp
        from bt Some \<open>startpos < pos\<close> "1.prems" have
          s: "siftdown (heap[pos := heap ! ?pp]) startpos ?pp newitem = Some h'"
          by (simp add: Let_def)
        from "1.IH" [OF \<open>startpos < pos\<close> refl refl Some bt s] show ?thesis
          by simp
      next
        case False
        with Some \<open>startpos < pos\<close> "1.prems" show ?thesis
          by (auto simp add: Let_def)
      qed
    qed
  next
    case False
    with "1.prems" show ?thesis
      by auto
  qed
qed

lemma heappush_keeps_nan_top:
  assumes "heap \<noteq> []" and "fst (hd heap) = Nan" and "fst item \<noteq> Nan"
    and "heappush heap item = Some h'"
  shows "hd h' = hd heap"
proof -
  obtain e n c m where item: "item = (e, n, c, m)" by (cases item)
  obtain e0 n0 c0 m0 where top: "hd heap = (e0, n0, c0, m0)" by (cases "hd heap")
  from assms(2) top have e0: "e0 = Nan" by simp
  from assms(3) item have "\<not> score_same e Nan" by (cases e) simp_all
  then have l: "entry_less item (hd heap) = Some False"
    by (cases e) (simp_all add: item top e0)
  from assms(1) have h0: "(heap @ [item]) ! 0 = hd heap"
    by (simp add: nth_append hd_conv_nth)
  from assms(1) have p: "0 < length heap" by simp
  from assms(4) have "siftdown (heap @ [item]) 0 (length heap) item = Some h'"
    by (simp add: heappush_def)
  from siftdown_root [OF p _ this] l h0 have "h' ! 0 = hd heap"
    by simp
  moreover from siftdown_length [OF \<open>siftdown (heap @ [item]) 0 (length heap) item = Some h'\<close>]
  have "h' \<noteq> []"
    by auto
  ultimately show ?thesis
    by (simp add: hd_conv_nth)
qed

lemma error_fun_skips:
  "error_fun dispatch mae d heap e_mods res_t co_i
     = error_fun dispatch mae d heap e_mods (filter (comparable (fam_targets d)) res_t) co_i"
  by (simp add: error_fun_def Let_def)

lemma error_fun_nan:
  assumes "list_all (\<lambda>m. dict_contains m e_mods) (fam_models d)"
    and "\<not> list_ex (comparable (fam_targets d)) res_t"
  shows "error_fun dispatch mae d heap e_mods res_t co_i
         = heappush heap (Nan, length e_mods, co_i,
             map (\<lambda>k. (k, the (map_of e_mods k))) (fam_models d))"
proof -
  from assms(1) have a: "\<not> list_ex (\<lambda>m. \<not> dict_contains m e_mods) (fam_models d)"
    by (simp add: list_all_iff list_ex_iff)
  from assms(1) have f: "filter (\<lambda>k. dict_contains k e_mods) (fam_models d) = fam_models d"
    by (simp add: list_all_iff)
  from assms(2) have n: "filter (comparable (fam_targets d)) res_t = []"
    by (simp add: list_ex_iff filter_empty_conv)
  show ?thesis
    by (simp add: error_fun_def Let_def a f n)
qed

text \<open>
  C6, as amended. For every candidate whose extracted models hold all the family's model
  names, \<open>error_fun\<close> skips the held-out records that have none of the target keys;
  when no held-out record is comparable the candidate gets the score \<open>np.nan\<close> and is
  pushed onto the ranking heap all the same. Pushed onto an empty heap it is the top, so
  a family whose only candidate it is selects it (with no post-processing) and records
  its cycle as the origin; and a candidate with a numeric score pushed after it stays
  below it.
\<close>

theorem nan_candidate_ranked:
  assumes "list_all (\<lambda>m. dict_contains m e_mods) (fam_models d)"
  shows "let trgs = fam_targets d;
             m = map (\<lambda>k. (k, the (map_of e_mods k))) (fam_models d);
             entry = (Nan, length e_mods, co_i, m)
         in error_fun dispatch mae d heap e_mods res_t co_i
              = error_fun dispatch mae d heap e_mods (filter (comparable trgs) res_t) co_i
            \<and> (if list_ex (comparable trgs) res_t then True
               else error_fun dispatch mae d heap e_mods res_t co_i = heappush heap entry
                  \<and> error_fun dispatch mae d [] e_mods res_t co_i = Some [entry]
                  \<and> (if fam_post_processing d = None
                     then select_family dispatch mae [(e_mods, res_t, co_i)] co models d
                          = Some \<lparr>sel_models = dict_update (sel_models models) m,
                                  sel_origin = dict_update (sel_origin models)
                                                 (map (\<lambda>k. (k, co_i)) (fam_models d))\<rparr>
                     else True)
                  \<and> (\<forall>x n c m'. heappush [entry] (Num x, n, c, m')
                                   = Some [entry, (Num x, n, c, m')]))"
proof (cases "list_ex (comparable (fam_targets d)) res_t")
  case True
  then show ?thesis
    using error_fun_skips [of dispatch mae d heap e_mods res_t co_i]
    by (simp add: Let_def)
next
  case False
  note e = error_fun_nan [OF assms False]
  have p: "\<And>x n c m'. heappush [(Nan, length e_mods, co_i,
              map (\<lambda>k. (k, the (map_of e_mods k))) (fam_models d))] (Num x, n, c, m')
            = Some [(Nan, length e_mods, co_i,
              map (\<lambda>k. (k, the (map_of e_mods k))) (fam_models d)), (Num x, n, c, m')]"
    by (simp add: heappush_def)
  show ?thesis
    using error_fun_skips [of dispatch mae d heap e_mods res_t co_i] False p
    by (simp add: Let_def e heappush_empty select_family_def)
qed

theorem nan_candidate_ranked_witness:
  "hd comparison_model_targets = ([''max_gear''], [])
   \<and> select_family (\<lambda>i trgs. Some []) (\<lambda>x y. Some (Num 0))
       [([(''max_gear'', 6 :: nat)], [[(''velocities'', 1)]], ''WLTP-H'')]
       [[(''max_gear'', 6), (''velocities'', 1)], [(''velocities'', 1)]]
       \<lparr>sel_models = [], sel_origin = []\<rparr>
       \<lparr>fam_models = fst (hd comparison_model_targets),
        fam_targets = snd (hd comparison_model_targets), fam_get_inputs = None,
        fam_post_processing = None\<rparr>
     = Some \<lparr>sel_models = [(''max_gear'', 6)], sel_origin = [(''max_gear'', ''WLTP-H'')]\<rparr>"
proof -
  have c: "hd comparison_model_targets = ([''max_gear''], [])"
    by (simp add: comparison_model_targets_def)
  show ?thesis
    using nan_candidate_ranked [where e_mods = "[(''max_gear'', 6 :: nat)]"
        and d = "\<lparr>fam_models = [''max_gear''], fam_targets = [], fam_get_inputs = None,
                   fam_post_processing = None\<rparr>"
        and res_t = "[[(''velocities'', 1)]]" and co_i = "''WLTP-H''"
        and dispatch = "\<lambda>i trgs. Some []" and mae = "\<lambda>x y. Some (Num 0)"
        and co = "[[(''max_gear'', 6), (''velocities'', 1)], [(''velocities'', 1)]]"
        and models = "\<lparr>sel_models = [], sel_origin = []\<rparr>" and heap = "[]"]
    by (simp add: c dict_contains_def comparable_def dict_update_def Let_def)
qed

text \<open>
  The claim as stated fails: the only candidate of the start/stop family, with one
  held-out record that has no \<open>on_engine\<close>, is scored \<open>np.nan\<close> and is the
  selected candidate.
\<close>

theorem nan_candidate_counterexample:
  "error_fun (\<lambda>i trgs. Some []) (\<lambda>x y. Some (Num 0))
     \<lparr>fam_models = [''start_stop_model''], fam_targets = [''on_engine''],
      fam_get_inputs = None, fam_post_processing = None\<rparr>
     [] [(''start_stop_model'', 7 :: nat)] [[(''velocities'', 1)]] ''WLTP-H''
   = Some [(Nan, 1, ''WLTP-H'', [(''start_stop_model'', 7)])]
   \<and> select_family (\<lambda>i trgs. Some []) (\<lambda>x y. Some (Num 0))
       [([(''start_stop_model'', 7 :: nat)], [[(''velocities'', 1)]], ''WLTP-H'')]
       [[(''start_stop_model'', 7), (''velocities'', 1)], [(''velocities'', 1)]]
       \<lparr>sel_models = [], sel_origin = []\<rparr>
       \<lparr>fam_models = [''start_stop_model''], fam_targets = [''on_engine''],
        fam_get_inputs = None, fam_post_processing = None\<rparr>
     = Some \<lparr>sel_models = [(''start_stop_model'', 7)],
             sel_origin = [(''start_stop_model'', ''WLTP-H'')]\<rparr>"
  by (simp add: select_family_def error_fun_def dict_contains_def comparable_def
      heappush_def dict_update_def Let_def)

subsection \<open>The \<open>template\<close> command\<close>





subsection \<open>The \<open>ipynb\<close> command\<close>

text \<open>
  C8, as amended. Every invocation of the \<open>ipynb\<close> sub-command raises
  \<open>NotImplementedError\<close>, which is not a \<open>CmdException\<close>: \<open>main\<close> does not
  catch it, the exception leaves \<open>main\<close> and the process ends with a non-zero status
  and the traceback. A \<open>CmdException\<close> of any command is caught by \<open>main\<close> and
  ends the process with its message and a non-zero status.
\<close>

theorem ipynb_uncaught:
  assumes "opt_ipynb opts" and "\<not> opt_template opts" and "\<not> opt_example opts"
  shows "main e opts w = (Uncaught NotImplementedError, w)
         \<and> process_end (fst (main e opts w)) = (1, Traceback NotImplementedError)
         \<and> (\<forall>opts' w' msg w''.
               if main_throwing e opts' w' = (Some (CmdException msg), w'')
               then main e opts' w' = (SystemExit msg, w'')
                    \<and> process_end (fst (main e opts' w')) = (1, Message msg)
               else True)"
  using assms
  by (simp add: main_def main_throwing_def cmd_ipynb_def)

theorem ipynb_uncaught_witness:
  "main example_env (example_opts\<lparr>opt_ipynb := True, opt_folder := ''notebooks''\<rparr>) example_world
     = (Uncaught NotImplementedError, example_world)"
  using ipynb_uncaught [of "example_opts\<lparr>opt_ipynb := True, opt_folder := ''notebooks''\<rparr>"
      example_env example_world]
  by (simp add: example_opts_def)

text \<open>
  The claim as stated fails: \<open>co2mpas ipynb notebooks\<close> ends with the traceback of
  \<open>NotImplementedError\<close>, not with an exit message.
\<close>

theorem ipynb_counterexample:
  "process_end (fst (main example_env
      (example_opts\<lparr>opt_ipynb := True, opt_folder := ''notebooks''\<rparr>) example_world))
     = (1, Traceback NotImplementedError)
   \<and> (\<forall>msg. fst (main example_env
      (example_opts\<lparr>opt_ipynb := True, opt_folder := ''notebooks''\<rparr>) example_world)
        \<noteq> SystemExit msg)"
  by (simp add: main_def main_throwing_def cmd_ipynb_def example_opts_def)

end
